theory Spec2Isabelle
  imports Complex_Main
begin

section \<open>Shared constants and errors\<close>

text \<open>
  Modelled from the spec: the module \<^verbatim>\<open>constants.py\<close> is not among the sources.  The
  specification (section 3) fixes the block size (context length) at 32, and the comment
  at \<^verbatim>\<open>main.py\<close> line 21 ("block size of 32") agrees.
\<close>

definition block_size :: nat where
  "block_size = 32"

text \<open>The Python exceptions that the modelled code can raise.\<close>

datatype error =
    TypeError
  | ValueError
  | IndexError
  | RuntimeError
  | ZeroDivisionError
  | AttributeError
  | SystemExit nat

section \<open>Batch collation (\<^verbatim>\<open>main.py\<close>, \<^verbatim>\<open>collate_batch\<close>)\<close>

text \<open>
  \<^verbatim>\<open>pad_sequence(data, batch_first=True, padding_value=v)\<close>: every sequence is
  right-padded with \<open>v\<close> to the length of the longest one.
\<close>

definition pad_sequence :: "int list list \<Rightarrow> int \<Rightarrow> int list list" where
  "pad_sequence seqs v =
     (let m = fold max (map length seqs) 0
      in map (\<lambda>s. s @ replicate (m - length s) v) seqs)"

text \<open>
  A batch is a list of (token ids, label) samples.  \<^verbatim>\<open>zip(*batch)\<close> yields nothing
  for an empty batch, and unpacking it into two names raises \<^verbatim>\<open>ValueError\<close>.
  \<^verbatim>\<open>padded_sequences.shape[1]\<close> is the common row length after truncation.
\<close>

definition collate_batch :: "(int list \<times> int) list \<Rightarrow> error + (int list list \<times> int list)" where
  "collate_batch batch =
     (if batch = [] then Inl ValueError
      else
        (let data = map fst batch;
             labels = map snd batch;
             padded_sequences = pad_sequence data 0;
             truncated = map (take block_size) padded_sequences;
             width = length (hd truncated);
             extra = nat (max 0 (int block_size - int width));
             padded_sequences' = map (\<lambda>s. s @ replicate extra 0) truncated
         in Inr (padded_sequences', labels)))"

section \<open>Floating-point numbers\<close>

text \<open>
  A floating-point number is a real number or one of the three special values.  Sums,
  products, quotients and square roots of finite numbers are exact: their rounding and
  their overflow are not modelled, and zero has no sign.  The special values follow
  IEEE 754: \<open>nan\<close> propagates, \<open>inf - inf\<close>, \<open>0 * inf\<close>, \<open>0 / 0\<close> and \<open>inf / inf\<close> are
  \<open>nan\<close>.
\<close>

datatype fl = FNaN | NegInf | PosInf | Fin real

fun fl_neg :: "fl \<Rightarrow> fl" where
  "fl_neg (Fin a) = Fin (- a)"
| "fl_neg NegInf = PosInf"
| "fl_neg PosInf = NegInf"
| "fl_neg FNaN = FNaN"

fun fl_add :: "fl \<Rightarrow> fl \<Rightarrow> fl" where
  "fl_add (Fin a) (Fin b) = Fin (a + b)"
| "fl_add FNaN b = FNaN"
| "fl_add a FNaN = FNaN"
| "fl_add PosInf NegInf = FNaN"
| "fl_add NegInf PosInf = FNaN"
| "fl_add PosInf b = PosInf"
| "fl_add a PosInf = PosInf"
| "fl_add NegInf b = NegInf"
| "fl_add a NegInf = NegInf"

definition fl_sub :: "fl \<Rightarrow> fl \<Rightarrow> fl" where
  "fl_sub a b = fl_add a (fl_neg b)"

fun fl_mul :: "fl \<Rightarrow> fl \<Rightarrow> fl" where
  "fl_mul (Fin a) (Fin b) = Fin (a * b)"
| "fl_mul FNaN b = FNaN"
| "fl_mul a FNaN = FNaN"
| "fl_mul (Fin a) b = (if a = 0 then FNaN else if 0 < a then b else fl_neg b)"
| "fl_mul a (Fin b) = (if b = 0 then FNaN else if 0 < b then a else fl_neg a)"
| "fl_mul PosInf b = b"
| "fl_mul NegInf b = fl_neg b"

fun fl_div :: "fl \<Rightarrow> fl \<Rightarrow> fl" where
  "fl_div (Fin a) (Fin b) =
     (if b = 0 then (if a = 0 then FNaN else if 0 < a then PosInf else NegInf)
      else Fin (a / b))"
| "fl_div FNaN b = FNaN"
| "fl_div a FNaN = FNaN"
| "fl_div (Fin a) b = Fin 0"
| "fl_div a (Fin b) = (if 0 \<le> b then a else fl_neg a)"
| "fl_div a b = FNaN"

fun fl_sqrt :: "fl \<Rightarrow> fl" where
  "fl_sqrt (Fin a) = (if a < 0 then FNaN else Fin (sqrt a))"
| "fl_sqrt PosInf = PosInf"
| "fl_sqrt a = FNaN"

fun fl_ln :: "fl \<Rightarrow> fl" where
  "fl_ln (Fin a) = (if a < 0 then FNaN else if a = 0 then NegInf else Fin (ln a))"
| "fl_ln PosInf = PosInf"
| "fl_ln a = FNaN"

text \<open>
  The exponential is the one operation whose result leaves the range of 32-bit floats on
  moderate arguments: it is zero from half the smallest positive float, \<open>1 / 2 ^ 150\<close>,
  downwards and infinite from halfway between the largest float and \<open>2 ^ 128\<close>, which is
  \<open>2 ^ 128 - 2 ^ 103\<close>, upwards (its rounding in between is not modelled).
\<close>

definition exp32 :: "real \<Rightarrow> fl" where
  "exp32 r =
     (if exp r \<le> 1 / 2 ^ 150 then Fin 0
      else if 2 ^ 128 - 2 ^ 103 \<le> exp r then PosInf
      else Fin (exp r))"

fun fl_exp :: "fl \<Rightarrow> fl" where
  "fl_exp (Fin a) = exp32 a"
| "fl_exp NegInf = Fin 0"
| "fl_exp PosInf = PosInf"
| "fl_exp FNaN = FNaN"

text \<open>Comparison (false whenever \<open>nan\<close> takes part) and the maximum, which propagates
  \<open>nan\<close>.\<close>

fun fl_less :: "fl \<Rightarrow> fl \<Rightarrow> bool" where
  "fl_less (Fin a) (Fin b) \<longleftrightarrow> a < b"
| "fl_less FNaN b \<longleftrightarrow> False"
| "fl_less a FNaN \<longleftrightarrow> False"
| "fl_less a NegInf \<longleftrightarrow> False"
| "fl_less PosInf b \<longleftrightarrow> False"
| "fl_less NegInf b \<longleftrightarrow> True"
| "fl_less a PosInf \<longleftrightarrow> True"

definition fl_max :: "fl \<Rightarrow> fl \<Rightarrow> fl" where
  "fl_max a b = (if a = FNaN \<or> b = FNaN then FNaN else if fl_less a b then b else a)"

text \<open>The sum and the maximum of \<open>f 0, \<dots>, f (n - 1)\<close>, accumulated from the left.\<close>

primrec fl_sum :: "(nat \<Rightarrow> fl) \<Rightarrow> nat \<Rightarrow> fl" where
  "fl_sum f 0 = Fin 0"
| "fl_sum f (Suc n) = fl_add (fl_sum f n) (f n)"

primrec fl_maximum :: "(nat \<Rightarrow> fl) \<Rightarrow> nat \<Rightarrow> fl" where
  "fl_maximum f 0 = NegInf"
| "fl_maximum f (Suc n) = fl_max (fl_maximum f n) (f n)"

text \<open>The numbers among the floating-point values, and the tensors that hold numbers only.\<close>

fun is_fin :: "fl \<Rightarrow> bool" where
  "is_fin (Fin a) \<longleftrightarrow> True"
| "is_fin a \<longleftrightarrow> False"


section \<open>Tensors\<close>

text \<open>
  A tensor is a shape together with its elements, addressed by index lists; only the
  elements at indices inside the shape are meaningful.  The learned parameters and the
  buffers of the model are tensors of real numbers; everything that the model computes is
  a tensor of floating-point numbers.
\<close>

record 'a tensor =
  shape :: "nat list"
  elem :: "nat list \<Rightarrow> 'a"

definition all_fin :: "fl tensor \<Rightarrow> bool" where
  "all_fin t \<longleftrightarrow> (\<forall>idx. is_fin (elem t idx))"

text \<open>All index lists inside a shape, in row-major order.\<close>

fun indices :: "nat list \<Rightarrow> nat list list" where
  "indices [] = [[]]"
| "indices (d # ds) = concat (map (\<lambda>i. map ((#) i) (indices ds)) [0..<d])"

text \<open>
  Broadcasting of two shapes, aligned at their last dimensions: two sizes are compatible
  when they are equal or one of them is 1.  The shapes are given reversed.
\<close>

fun broadcast_rev :: "nat list \<Rightarrow> nat list \<Rightarrow> nat list option" where
  "broadcast_rev [] ys = Some ys"
| "broadcast_rev (x # xs) [] = Some (x # xs)"
| "broadcast_rev (x # xs) (y # ys) =
     (if x = y \<or> y = 1 then map_option ((#) x) (broadcast_rev xs ys)
      else if x = 1 then map_option ((#) y) (broadcast_rev xs ys)
      else None)"

definition broadcast_shapes :: "nat list \<Rightarrow> nat list \<Rightarrow> nat list option" where
  "broadcast_shapes s1 s2 = map_option rev (broadcast_rev (rev s1) (rev s2))"

text \<open>The index into an operand of shape \<open>s\<close> that an index of the broadcast result reads.\<close>

definition bproj :: "nat list \<Rightarrow> nat list \<Rightarrow> nat list" where
  "bproj s idx = map2 (\<lambda>d i. if d = 1 then 0 else i) s (drop (length idx - length s) idx)"

definition broadcast2 ::
  "('a \<Rightarrow> 'b \<Rightarrow> 'c) \<Rightarrow> 'a tensor \<Rightarrow> 'b tensor \<Rightarrow> error + 'c tensor" where
  "broadcast2 f a b =
     (case broadcast_shapes (shape a) (shape b) of
        None \<Rightarrow> Inl RuntimeError
      | Some s \<Rightarrow>
          Inr \<lparr>shape = s,
               elem = (\<lambda>idx. f (elem a (bproj (shape a) idx)) (elem b (bproj (shape b) idx)))\<rparr>)"

definition tensor_map :: "('a \<Rightarrow> 'b) \<Rightarrow> 'a tensor \<Rightarrow> 'b tensor" where
  "tensor_map f x = \<lparr>shape = shape x, elem = (\<lambda>idx. f (elem x idx))\<rparr>"

text \<open>Sequencing of computations that may raise.\<close>

definition and_then :: "error + 'a \<Rightarrow> ('a \<Rightarrow> error + 'b) \<Rightarrow> error + 'b" where
  "and_then m f = (case m of Inl e \<Rightarrow> Inl e | Inr v \<Rightarrow> f v)"

subsection \<open>Library operations used by the model\<close>

text \<open>\<^verbatim>\<open>a + b\<close> on tensors.\<close>

definition torch_add :: "fl tensor \<Rightarrow> fl tensor \<Rightarrow> error + fl tensor" where
  "torch_add a b = broadcast2 fl_add a b"

text \<open>\<^verbatim>\<open>torch.tril(torch.ones(n, n))\<close>.\<close>

definition tril_ones :: "nat \<Rightarrow> real tensor" where
  "tril_ones n = \<lparr>shape = [n, n], elem = (\<lambda>idx. if idx ! 1 \<le> idx ! 0 then 1 else 0)\<rparr>"

text \<open>\<^verbatim>\<open>m[:T, :T]\<close> on a two-dimensional tensor.\<close>

definition slice2 :: "'a tensor \<Rightarrow> nat \<Rightarrow> 'a tensor" where
  "slice2 m T = \<lparr>shape = map (min T) (shape m), elem = elem m\<rparr>"

text \<open>
  \<^verbatim>\<open>w.masked_fill(mask, v)\<close>: the mask and the tensor are broadcast against each other;
  where the mask holds the element is replaced.
\<close>

definition masked_fill :: "fl tensor \<Rightarrow> bool tensor \<Rightarrow> fl \<Rightarrow> error + fl tensor" where
  "masked_fill w msk v = broadcast2 (\<lambda>x m. if m then v else x) w msk"

text \<open>\<^verbatim>\<open>x.transpose(-2, -1)\<close>.\<close>

definition swap_last2 :: "'a list \<Rightarrow> 'a list" where
  "swap_last2 xs =
     (let n = length xs in take (n - 2) xs @ [xs ! (n - 1), xs ! (n - 2)])"

definition transpose_last2 :: "'a tensor \<Rightarrow> error + 'a tensor" where
  "transpose_last2 x =
     (if length (shape x) < 2 then Inl IndexError
      else Inr \<lparr>shape = swap_last2 (shape x), elem = (\<lambda>idx. elem x (swap_last2 idx))\<rparr>)"

text \<open>
  \<^verbatim>\<open>a @ b\<close> for operands with at least two dimensions each (the only use in the
  model, after a three-dimensional shape has been unpacked): the leading dimensions are
  broadcast, the last two are multiplied as matrices.
\<close>

definition matmul :: "fl tensor \<Rightarrow> fl tensor \<Rightarrow> error + fl tensor" where
  "matmul a b =
     (let ra = length (shape a); rb = length (shape b) in
      if ra < 2 \<or> rb < 2 then Inl RuntimeError
      else
        (let n = shape a ! (ra - 2); m = shape a ! (ra - 1);
             m' = shape b ! (rb - 2); p = shape b ! (rb - 1);
             ba = take (ra - 2) (shape a); bb = take (rb - 2) (shape b)
         in if m \<noteq> m' then Inl RuntimeError
            else
              (case broadcast_shapes ba bb of
                 None \<Rightarrow> Inl RuntimeError
               | Some bs \<Rightarrow>
                   Inr \<lparr>shape = bs @ [n, p],
                        elem = (\<lambda>idx.
                          (let r = length idx; pre = take (r - 2) idx;
                               i = idx ! (r - 2); j = idx ! (r - 1)
                           in fl_sum (\<lambda>k. fl_mul (elem a (bproj ba pre @ [i, k]))
                                                   (elem b (bproj bb pre @ [k, j]))) m))\<rparr>)))"

text \<open>Multiplication of a tensor by a Python number.\<close>

definition scale :: "fl tensor \<Rightarrow> real \<Rightarrow> fl tensor" where
  "scale x c = tensor_map (\<lambda>v. fl_mul v (Fin c)) x"

text \<open>
  \<^verbatim>\<open>n ** -0.5\<close> for a Python integer \<open>n\<close>: zero to a negative power raises.
\<close>

definition pow_neg_half :: "nat \<Rightarrow> error + real" where
  "pow_neg_half n = (if n = 0 then Inl ZeroDivisionError else Inr (1 / sqrt (real n)))"

text \<open>
  \<^verbatim>\<open>F.softmax(x, dim=d)\<close>, as the library computes it: along dimension \<open>d\<close> the maximum
  is subtracted, the exponentials are taken and divided by their sum.  A slice with a
  \<open>nan\<close> or a \<open>+inf\<close>, or entirely \<open>-inf\<close>, becomes \<open>nan\<close>.
\<close>

definition softmax :: "fl tensor \<Rightarrow> nat \<Rightarrow> error + fl tensor" where
  "softmax x d =
     (if length (shape x) \<le> d then Inl IndexError
      else Inr \<lparr>shape = shape x,
                elem = (\<lambda>idx.
                  (let n = shape x ! d;
                       m = fl_maximum (\<lambda>k. elem x (idx[d := k])) n
                   in fl_div (fl_exp (fl_sub (elem x idx) m))
                             (fl_sum (\<lambda>k. fl_exp (fl_sub (elem x (idx[d := k])) m)) n)))\<rparr>)"

text \<open>\<^verbatim>\<open>torch.mean(x, dim=d)\<close>; over an empty dimension it is \<open>0 / 0\<close>.\<close>

definition mean_dim :: "fl tensor \<Rightarrow> nat \<Rightarrow> error + fl tensor" where
  "mean_dim x d =
     (if length (shape x) \<le> d then Inl IndexError
      else Inr \<lparr>shape = take d (shape x) @ drop (Suc d) (shape x),
                elem = (\<lambda>idx. fl_div (fl_sum (\<lambda>k. elem x (take d idx @ [k] @ drop d idx))
                                              (shape x ! d))
                                      (Fin (real (shape x ! d))))\<rparr>)"

definition relu :: "fl tensor \<Rightarrow> fl tensor" where
  "relu x = tensor_map (fl_max (Fin 0)) x"

subsection \<open>\<^verbatim>\<open>nn.Linear\<close>\<close>

record linear =
  weight :: "real tensor"
  bias :: "real tensor option"

text \<open>What \<^verbatim>\<open>nn.Linear(in_features, out_features, bias=has_bias)\<close> constructs; the
  parameter values are arbitrary.\<close>

definition is_Linear :: "nat \<Rightarrow> nat \<Rightarrow> bool \<Rightarrow> linear \<Rightarrow> bool" where
  "is_Linear in_features out_features has_bias l \<longleftrightarrow>
     shape (weight l) = [out_features, in_features] \<and>
     (case bias l of None \<Rightarrow> \<not> has_bias | Some b \<Rightarrow> has_bias \<and> shape b = [out_features])"

definition Linear_forward :: "linear \<Rightarrow> fl tensor \<Rightarrow> error + fl tensor" where
  "Linear_forward l x =
     (let out_features = shape (weight l) ! 0; in_features = shape (weight l) ! 1 in
      if shape x = [] \<or> last (shape x) \<noteq> in_features then Inl RuntimeError
      else Inr \<lparr>shape = butlast (shape x) @ [out_features],
                elem = (\<lambda>idx.
                  fl_add
                    (fl_sum (\<lambda>i. fl_mul (elem x (butlast idx @ [i]))
                                          (Fin (elem (weight l) [last idx, i]))) in_features)
                    (Fin (case bias l of None \<Rightarrow> 0 | Some b \<Rightarrow> elem b [last idx])))\<rparr>)"

section \<open>The attention head (\<^verbatim>\<open>transformer.py\<close>, \<^verbatim>\<open>Head\<close>)\<close>

text \<open>
  The remaining sizes that \<^verbatim>\<open>transformer.py\<close> imports from \<^verbatim>\<open>constants.py\<close> have no
  value in the sources or in the specification: they are parameters.
\<close>

record constants =
  n_embd :: nat
  n_head :: nat
  n_layer :: nat
  n_hidden :: nat
  n_output :: nat

record head =
  key :: linear
  query :: linear
  "value" :: linear
  tril :: "real tensor"
  decoding :: bool

text \<open>What \<^verbatim>\<open>Head(head_size, decoding)\<close> constructs.\<close>

definition is_Head :: "constants \<Rightarrow> nat \<Rightarrow> bool \<Rightarrow> head \<Rightarrow> bool" where
  "is_Head c head_size dec h \<longleftrightarrow>
     is_Linear (n_embd c) head_size False (key h) \<and>
     is_Linear (n_embd c) head_size False (query h) \<and>
     is_Linear (n_embd c) head_size False (value h) \<and>
     tril h = tril_ones block_size \<and>
     decoding h = dec"

text \<open>
  The attention scores of \<^verbatim>\<open>Head.forward\<close> (lines 26 to 29):
  \<^verbatim>\<open>q @ k.transpose(-2,-1) * k.shape[-1]**-0.5\<close>.
\<close>

definition affinities :: "head \<Rightarrow> fl tensor \<Rightarrow> error + fl tensor" where
  "affinities h x =
     and_then (Linear_forward (key h) x) (\<lambda>k.
     and_then (Linear_forward (query h) x) (\<lambda>q.
     and_then (transpose_last2 k) (\<lambda>kT.
     and_then (matmul q kT) (\<lambda>qk.
     and_then (pow_neg_half (last (shape k))) (\<lambda>s.
     Inr (scale qk s))))))"

text \<open>
  The first half of \<^verbatim>\<open>Head.forward\<close> (lines 24 to 35): the normalised attention
  weights \<^verbatim>\<open>wei\<close>.
\<close>

definition Head_wei :: "head \<Rightarrow> fl tensor \<Rightarrow> error + fl tensor" where
  "Head_wei h x =
     (case shape x of
        [B, T, C] \<Rightarrow>
          and_then (affinities h x) (\<lambda>wei.
          and_then
            (if decoding h
             then masked_fill wei (tensor_map (\<lambda>v. v = 0) (slice2 (tril h) T)) NegInf
             else Inr wei) (\<lambda>wei.
          softmax wei (length (shape wei) - 1)))
      | _ \<Rightarrow> Inl ValueError)"

text \<open>\<^verbatim>\<open>Head.forward\<close>: the weighted aggregation of the values.\<close>

definition Head_forward :: "head \<Rightarrow> fl tensor \<Rightarrow> error + fl tensor" where
  "Head_forward h x =
     and_then (Head_wei h x) (\<lambda>wei.
     and_then (Linear_forward (value h) x) (\<lambda>v.
     matmul wei v))"

section \<open>Multi-head attention (\<^verbatim>\<open>MultiHeadAttention\<close>)\<close>

text \<open>
  \<^verbatim>\<open>torch.cat((a, b), dim=d)\<close>: the operands agree in every dimension except \<open>d\<close>.
  \<^verbatim>\<open>torch.cat(ts, dim=d)\<close> on a list concatenates from left to right and rejects the
  empty list.
\<close>

definition cat2 :: "nat \<Rightarrow> 'a tensor \<Rightarrow> 'a tensor \<Rightarrow> error + 'a tensor" where
  "cat2 d a b =
     (if d < length (shape a) \<and> length (shape a) = length (shape b)
         \<and> (shape a)[d := 0] = (shape b)[d := 0]
      then Inr \<lparr>shape = (shape a)[d := shape a ! d + shape b ! d],
                elem = (\<lambda>idx. if idx ! d < shape a ! d then elem a idx
                                else elem b (idx[d := idx ! d - shape a ! d]))\<rparr>
      else Inl RuntimeError)"

definition torch_cat :: "'a tensor list \<Rightarrow> nat \<Rightarrow> error + 'a tensor" where
  "torch_cat ts d =
     (case ts of
        [] \<Rightarrow> Inl RuntimeError
      | t # us \<Rightarrow> foldl (\<lambda>acc u. and_then acc (\<lambda>a. cat2 d a u)) (Inr t) us)"

text \<open>The results of a list comprehension whose body may raise: the first error wins.\<close>

fun collect :: "(error + 'a) list \<Rightarrow> error + 'a list" where
  "collect [] = Inr []"
| "collect (r # rs) = and_then r (\<lambda>v. and_then (collect rs) (\<lambda>vs. Inr (v # vs)))"

record multi_head_attention =
  heads :: "head list"
  proj :: linear

text \<open>What \<^verbatim>\<open>MultiHeadAttention(num_heads, head_size, decoding)\<close> constructs.\<close>

definition is_MultiHeadAttention ::
  "constants \<Rightarrow> nat \<Rightarrow> nat \<Rightarrow> bool \<Rightarrow> multi_head_attention \<Rightarrow> bool" where
  "is_MultiHeadAttention c num_heads head_size dec m \<longleftrightarrow>
     length (heads m) = num_heads \<and>
     (\<forall>h \<in> set (heads m). is_Head c head_size dec h) \<and>
     is_Linear (head_size * num_heads) (n_embd c) True (proj m)"

text \<open>
  \<^verbatim>\<open>MultiHeadAttention.forward\<close>: \<^verbatim>\<open>torch.cat([h(x) for h in self.heads], dim=-1)\<close>.
  The line that would apply \<^verbatim>\<open>self.proj\<close> is commented out in the source.
\<close>

definition MultiHeadAttention_forward :: "multi_head_attention \<Rightarrow> fl tensor \<Rightarrow> error + fl tensor" where
  "MultiHeadAttention_forward m x =
     and_then (collect (map (\<lambda>h. Head_forward h x) (heads m))) (\<lambda>outs.
     torch_cat outs (length (shape (hd outs)) - 1))"

section \<open>Feed-forward, layer normalisation and the transformer block\<close>

record feed_forward =
  net0 :: linear
  net2 :: linear

definition is_FeedFoward :: "nat \<Rightarrow> feed_forward \<Rightarrow> bool" where
  "is_FeedFoward n f \<longleftrightarrow>
     is_Linear n (4 * n) True (net0 f) \<and> is_Linear (4 * n) n True (net2 f)"

definition FeedFoward_forward :: "feed_forward \<Rightarrow> fl tensor \<Rightarrow> error + fl tensor" where
  "FeedFoward_forward f x =
     and_then (Linear_forward (net0 f) x) (\<lambda>y.
     Linear_forward (net2 f) (relu y))"

text \<open>
  \<^verbatim>\<open>nn.LayerNorm(n)\<close> normalises over the last dimension with the biased variance and
  \<open>eps = 1e-5\<close>, then applies its elementwise weight and bias.
\<close>

record layer_norm =
  ln_weight :: "real tensor"
  ln_bias :: "real tensor"

definition is_LayerNorm :: "nat \<Rightarrow> layer_norm \<Rightarrow> bool" where
  "is_LayerNorm n l \<longleftrightarrow> shape (ln_weight l) = [n] \<and> shape (ln_bias l) = [n]"

definition LayerNorm_forward :: "layer_norm \<Rightarrow> fl tensor \<Rightarrow> error + fl tensor" where
  "LayerNorm_forward l x =
     (let n = shape (ln_weight l) ! 0 in
      if shape x = [] \<or> last (shape x) \<noteq> n then Inl RuntimeError
      else Inr \<lparr>shape = shape x,
                elem = (\<lambda>idx.
                  (let pre = butlast idx;
                       mu = fl_div (fl_sum (\<lambda>k. elem x (pre @ [k])) n) (Fin (real n));
                       var = fl_div (fl_sum (\<lambda>k. fl_mul (fl_sub (elem x (pre @ [k])) mu)
                                                         (fl_sub (elem x (pre @ [k])) mu)) n)
                                    (Fin (real n))
                   in fl_add
                        (fl_mul (fl_div (fl_sub (elem x idx) mu)
                                        (fl_sqrt (fl_add var (Fin (1 / 100000)))))
                                (Fin (elem (ln_weight l) [last idx])))
                        (Fin (elem (ln_bias l) [last idx]))))\<rparr>)"

record block =
  sa :: multi_head_attention
  ffwd :: feed_forward
  ln1 :: layer_norm
  ln2 :: layer_norm

text \<open>
  What \<^verbatim>\<open>Block(n_embd, n_head=n_head, decoding=dec)\<close> constructs;
  \<^verbatim>\<open>head_size = n_embd // n_head\<close> raises for \<open>n_head = 0\<close>, so no block exists then.
\<close>

definition is_Block :: "constants \<Rightarrow> bool \<Rightarrow> block \<Rightarrow> bool" where
  "is_Block c dec b \<longleftrightarrow>
     n_head c \<noteq> 0 \<and>
     is_MultiHeadAttention c (n_head c) (n_embd c div n_head c) dec (sa b) \<and>
     is_FeedFoward (n_embd c) (ffwd b) \<and>
     is_LayerNorm (n_embd c) (ln1 b) \<and>
     is_LayerNorm (n_embd c) (ln2 b)"

definition Block_forward :: "block \<Rightarrow> fl tensor \<Rightarrow> error + fl tensor" where
  "Block_forward b x =
     and_then (LayerNorm_forward (ln1 b) x) (\<lambda>n1.
     and_then (MultiHeadAttention_forward (sa b) n1) (\<lambda>a.
     and_then (torch_add x a) (\<lambda>x1.
     and_then (LayerNorm_forward (ln2 b) x1) (\<lambda>n2.
     and_then (FeedFoward_forward (ffwd b) n2) (\<lambda>f.
     torch_add x1 f)))))"

text \<open>\<^verbatim>\<open>nn.Sequential\<close> over the blocks.\<close>

fun Sequential_forward :: "block list \<Rightarrow> fl tensor \<Rightarrow> error + fl tensor" where
  "Sequential_forward [] x = Inr x"
| "Sequential_forward (b # bs) x = and_then (Block_forward b x) (Sequential_forward bs)"

section \<open>Classifier head and encoder (\<^verbatim>\<open>Classifier\<close>, \<^verbatim>\<open>Encoder\<close>)\<close>

record classifier_head =
  fc1 :: linear
  fc2 :: linear


definition Classifier_forward :: "classifier_head \<Rightarrow> fl tensor \<Rightarrow> error + fl tensor" where
  "Classifier_forward cl x =
     and_then (Linear_forward (fc1 cl) x) (\<lambda>y.
     and_then (Linear_forward (fc2 cl) (relu y)) (\<lambda>z.
     softmax z 1))"

text \<open>
  \<^verbatim>\<open>nn.Embedding\<close> lookup with a table of shape \<open>[num, dim]\<close>: an index outside
  \<open>0 ..< num\<close> raises.
\<close>

definition Embedding_forward :: "real tensor \<Rightarrow> int tensor \<Rightarrow> error + fl tensor" where
  "Embedding_forward w idx =
     (let num = shape w ! 0; dim = shape w ! 1 in
      if list_all (\<lambda>i. 0 \<le> elem idx i \<and> elem idx i < int num) (indices (shape idx))
      then Inr \<lparr>shape = shape idx @ [dim],
                elem = (\<lambda>i. Fin (elem w [nat (elem idx (butlast i)), last i]))\<rparr>
      else Inl IndexError)"

text \<open>\<^verbatim>\<open>torch.arange(T)\<close>.\<close>

definition arange :: "nat \<Rightarrow> int tensor" where
  "arange T = \<lparr>shape = [T], elem = (\<lambda>idx. int (idx ! 0))\<rparr>"

datatype device = Cpu | Cuda

text \<open>The parts that the encoder and the decoder have in common.\<close>

record transformer =
  token_embedding_table :: "real tensor"
  position_embedding_table :: "real tensor"
  blocks :: "block list"
  ln_f :: layer_norm

record encoder = transformer +
  classifier :: classifier_head

record decoder = transformer +
  lm_head :: linear


definition is_Decoder :: "constants \<Rightarrow> nat \<Rightarrow> decoder \<Rightarrow> bool" where
  "is_Decoder c vocab_size d \<longleftrightarrow>
     shape (token_embedding_table d) = [vocab_size, n_embd c] \<and>
     shape (position_embedding_table d) = [block_size, n_embd c] \<and>
     length (blocks d) = n_layer c \<and>
     (\<forall>b \<in> set (blocks d). is_Block c True b) \<and>
     is_LayerNorm (n_embd c) (ln_f d) \<and>
     is_Linear (n_embd c) vocab_size True (lm_head d)"

text \<open>
  The common first part of \<^verbatim>\<open>Encoder.forward\<close> (lines 116 to 125) and
  \<^verbatim>\<open>Decoder.forward\<close> (lines 155 to 163): token plus position embedding, the blocks,
  the final layer normalisation.
\<close>

definition hidden_states :: "'a transformer_scheme \<Rightarrow> int tensor \<Rightarrow> error + fl tensor" where
  "hidden_states m idx =
     (case shape idx of
        [B, T] \<Rightarrow>
          and_then (Embedding_forward (token_embedding_table m) idx) (\<lambda>tok_emb.
          and_then (Embedding_forward (position_embedding_table m) (arange T)) (\<lambda>pos_emb.
          and_then (torch_add tok_emb pos_emb) (\<lambda>x.
          and_then (Sequential_forward (blocks m) x) (\<lambda>x.
          LayerNorm_forward (ln_f m) x))))
      | _ \<Rightarrow> Inl ValueError)"

text \<open>
  \<^verbatim>\<open>Encoder.forward(idx, device, targets=None)\<close>.  The parameter \<^verbatim>\<open>device\<close> has no
  default: a call that does not supply it (\<open>None\<close> here) raises \<^verbatim>\<open>TypeError\<close> before the
  body runs.  The parameter \<^verbatim>\<open>targets\<close> is never read.
\<close>

definition Encoder_forward ::
  "encoder \<Rightarrow> int tensor \<Rightarrow> device option \<Rightarrow> int tensor option \<Rightarrow> error + fl tensor" where
  "Encoder_forward e idx device targets =
     (case device of
        None \<Rightarrow> Inl TypeError
      | Some dev \<Rightarrow>
          and_then (hidden_states e idx) (\<lambda>x.
          and_then (mean_dim x 1) (\<lambda>x.
          Classifier_forward (classifier e) x)))"

section \<open>Decoder (\<^verbatim>\<open>Decoder\<close>)\<close>

text \<open>
  \<^verbatim>\<open>x.view(s)\<close> on a contiguous tensor: the elements in row-major order, under a new
  shape of the same size.
\<close>

definition ravel :: "nat list \<Rightarrow> nat list \<Rightarrow> nat" where
  "ravel s idx = foldl (\<lambda>acc (d, i). acc * d + i) 0 (zip s idx)"

fun unravel :: "nat list \<Rightarrow> nat \<Rightarrow> nat list" where
  "unravel [] n = []"
| "unravel (d # ds) n = (n div prod_list ds) # unravel ds (n mod prod_list ds)"

definition view :: "'a tensor \<Rightarrow> nat list \<Rightarrow> error + 'a tensor" where
  "view x s =
     (if prod_list s = prod_list (shape x)
      then Inr \<lparr>shape = s, elem = (\<lambda>idx. elem x (unravel (shape x) (ravel s idx)))\<rparr>
      else Inl RuntimeError)"

text \<open>
  \<^verbatim>\<open>F.cross_entropy(logits, targets)\<close> for logits of shape \<open>[N, C]\<close> and class indices
  of shape \<open>[N]\<close>: the mean, over the targets other than the ignored index \<open>-100\<close>, of the
  negative log-probability of the target class, the log-probabilities being computed as
  the softmax is (the maximum of the row subtracted).
\<close>

definition nll :: "fl tensor \<Rightarrow> nat \<Rightarrow> nat \<Rightarrow> fl" where
  "nll x n t =
     (let C = shape x ! 1;
          m = fl_maximum (\<lambda>k. elem x [n, k]) C
      in fl_sub (fl_ln (fl_sum (\<lambda>k. fl_exp (fl_sub (elem x [n, k]) m)) C))
                (fl_sub (elem x [n, t]) m))"

definition cross_entropy :: "fl tensor \<Rightarrow> int tensor \<Rightarrow> error + fl" where
  "cross_entropy x t =
     (case shape x of
        [N, C] \<Rightarrow>
          if shape t \<noteq> [N] then Inl ValueError
          else if \<exists>n \<in> set [0..<N]. elem t [n] \<noteq> - 100 \<and> (elem t [n] < 0 \<or> int C \<le> elem t [n])
          then Inl IndexError
          else Inr (fl_div
                      (fl_sum (\<lambda>n. if elem t [n] = - 100 then Fin 0
                                    else nll x n (nat (elem t [n]))) N)
                      (Fin (real (length (filter (\<lambda>n. elem t [n] \<noteq> - 100) [0..<N])))))
      | _ \<Rightarrow> Inl RuntimeError)"

text \<open>
  \<^verbatim>\<open>Decoder.forward(idx, device, targets=None)\<close>; as for the encoder, \<^verbatim>\<open>device\<close> has
  no default.  The result is the pair \<^verbatim>\<open>(logits, loss)\<close>.
\<close>

definition Decoder_forward ::
  "decoder \<Rightarrow> int tensor \<Rightarrow> device option \<Rightarrow> int tensor option
     \<Rightarrow> error + (fl tensor \<times> fl option)" where
  "Decoder_forward d idx device targets =
     (case device of
        None \<Rightarrow> Inl TypeError
      | Some dev \<Rightarrow>
          and_then (hidden_states d idx) (\<lambda>x.
          and_then (Linear_forward (lm_head d) x) (\<lambda>logits.
          (case targets of
             None \<Rightarrow> Inr (logits, None)
           | Some tg \<Rightarrow>
               (case shape logits of
                  [B, T, C] \<Rightarrow>
                    and_then (view logits [B * T, C]) (\<lambda>logits'.
                    and_then (view tg [B * T]) (\<lambda>targets'.
                    and_then (cross_entropy logits' targets') (\<lambda>loss.
                    Inr (logits', Some loss))))
                | _ \<Rightarrow> Inl ValueError)))))"

text \<open>\<^verbatim>\<open>idx[:, -n:]\<close> for \<open>n > 0\<close>: the last (at most) \<open>n\<close> positions of dimension 1.\<close>

definition crop_last :: "'a tensor \<Rightarrow> nat \<Rightarrow> error + 'a tensor" where
  "crop_last x n =
     (if length (shape x) < 2 then Inl IndexError
      else
        (let T = shape x ! 1; T' = min T n in
         Inr \<lparr>shape = (shape x)[1 := T'],
              elem = (\<lambda>idx. elem x (idx[1 := idx ! 1 + (T - T')]))\<rparr>))"

text \<open>\<^verbatim>\<open>logits[:, -1, :]\<close>: the last time step of a three-dimensional tensor.\<close>

definition last_step :: "'a tensor \<Rightarrow> error + 'a tensor" where
  "last_step x =
     (if length (shape x) < 3 \<or> shape x ! 1 = 0 then Inl IndexError
      else Inr \<lparr>shape = shape x ! 0 # drop 2 (shape x),
                elem = (\<lambda>idx. elem x (idx ! 0 # (shape x ! 1 - 1) # drop 1 idx))\<rparr>)"

text \<open>
  \<^verbatim>\<open>Decoder.generate(idx, max_new_tokens)\<close>.  The call \<^verbatim>\<open>self(idx_cond)\<close> passes one
  argument to \<^verbatim>\<open>forward\<close>, so \<^verbatim>\<open>device\<close> is not supplied.  The random draws of
  \<^verbatim>\<open>torch.multinomial\<close> are a parameter: \<open>sample n probs\<close> is the draw made when \<open>n\<close>
  further iterations remain.
\<close>

fun generate ::
  "(nat \<Rightarrow> fl tensor \<Rightarrow> error + int tensor) \<Rightarrow> decoder \<Rightarrow> int tensor \<Rightarrow> nat
     \<Rightarrow> error + int tensor" where
  "generate sample d idx 0 = Inr idx"
| "generate sample d idx (Suc n) =
     and_then (crop_last idx block_size) (\<lambda>idx_cond.
     and_then (Decoder_forward d idx_cond None None) (\<lambda>(logits, loss).
     and_then (last_step logits) (\<lambda>logits.
     and_then (softmax logits (length (shape logits) - 1)) (\<lambda>probs.
     and_then (sample n probs) (\<lambda>idx_next.
     and_then (cat2 1 idx idx_next) (\<lambda>idx'.
     generate sample d idx' n))))))"

section \<open>Evaluation and the entry point (\<^verbatim>\<open>main.py\<close>)\<close>

text \<open>
  What a call of a model object can return: a tensor, or the pair \<^verbatim>\<open>(logits, loss)\<close> of
  \<^verbatim>\<open>Decoder.forward\<close>.
\<close>

datatype pyobject = Tensor "fl tensor" | Pair "fl tensor" "fl option"

text \<open>
  The calls \<^verbatim>\<open>decoderLMmodel(X)\<close> and \<^verbatim>\<open>classifier(X)\<close> of \<^verbatim>\<open>main.py\<close> on the
  models of \<^verbatim>\<open>transformer.py\<close>: one positional argument, so \<^verbatim>\<open>device\<close> is not
  supplied.
\<close>

definition Decoder_call :: "decoder \<Rightarrow> int tensor \<Rightarrow> error + pyobject" where
  "Decoder_call d X =
     and_then (Decoder_forward d X None None) (\<lambda>(logits, loss). Inr (Pair logits loss))"

definition Encoder_call :: "encoder \<Rightarrow> int tensor \<Rightarrow> error + fl tensor" where
  "Encoder_call e X = Encoder_forward e X None None"

text \<open>
  The loss of one batch in \<^verbatim>\<open>compute_perplexity\<close> (lines 60 to 66);
  \<^verbatim>\<open>logits.shape\<close> on a tuple raises \<^verbatim>\<open>AttributeError\<close>.
\<close>

definition batch_loss :: "('x \<Rightarrow> error + pyobject) \<Rightarrow> 'x \<times> int tensor \<Rightarrow> error + fl" where
  "batch_loss model batch =
     and_then (model (fst batch)) (\<lambda>r.
       (case r of
          Pair _ _ \<Rightarrow> Inl AttributeError
        | Tensor logits \<Rightarrow>
            (case shape logits of
               [B, T, C] \<Rightarrow>
                 and_then (view logits [B * T, C]) (\<lambda>logits'.
                 and_then (view (snd batch) [B * T]) (\<lambda>targets.
                 cross_entropy logits' targets))
             | _ \<Rightarrow> Inl ValueError)))"

text \<open>
  The loop of \<^verbatim>\<open>compute_perplexity\<close> (lines 59 to 71) over the batches that the data
  loader yields.
\<close>

fun perplexity_losses ::
  "('x \<Rightarrow> error + pyobject) \<Rightarrow> ('x \<times> int tensor) list \<Rightarrow> int \<Rightarrow> fl list
     \<Rightarrow> error + fl list" where
  "perplexity_losses model [] eval_iters losses = Inr losses"
| "perplexity_losses model (batch # rest) eval_iters losses =
     and_then (batch_loss model batch) (\<lambda>loss.
       (let losses' = losses @ [loss] in
        if int (length losses') \<ge> eval_iters then Inr losses'
        else perplexity_losses model rest eval_iters losses'))"

text \<open>
  \<^verbatim>\<open>compute_perplexity(decoderLMmodel, data_loader, eval_iters=100)\<close>: the third argument
  is \<open>None\<close> when the caller leaves it out.  The result is the exponential of the mean of
  the losses; the mean of no losses is \<open>0 / 0\<close>.  Switching the model between evaluation
  and training mode changes no value (the model has no dropout).
\<close>

definition compute_perplexity ::
  "('x \<Rightarrow> error + pyobject) \<Rightarrow> ('x \<times> int tensor) list \<Rightarrow> int option \<Rightarrow> error + fl" where
  "compute_perplexity decoderLMmodel data_loader eval_iters_arg =
     (let eval_iters = (case eval_iters_arg of None \<Rightarrow> 100 | Some n \<Rightarrow> n) in
      and_then (perplexity_losses decoderLMmodel data_loader eval_iters []) (\<lambda>losses.
        Inr (fl_exp (fl_div (fl_sum (\<lambda>k. losses ! k) (length losses))
                            (Fin (real (length losses)))))))"

text \<open>
  \<^verbatim>\<open>torch.max(x, 1)\<close>: the indices of the first maximal value along dimension 1, where
  \<open>nan\<close> counts as larger than every number.
\<close>

definition fl_beats :: "fl \<Rightarrow> fl \<Rightarrow> bool" where
  "fl_beats new cur \<longleftrightarrow> cur \<noteq> FNaN \<and> (new = FNaN \<or> fl_less cur new)"

primrec argmax_first :: "(nat \<Rightarrow> fl) \<Rightarrow> nat \<Rightarrow> nat" where
  "argmax_first f 0 = 0"
| "argmax_first f (Suc n) =
     (if n = 0 then 0
      else (let a = argmax_first f n in if fl_beats (f n) (f a) then n else a))"

definition torch_max_indices :: "fl tensor \<Rightarrow> nat \<Rightarrow> error + int tensor" where
  "torch_max_indices x d =
     (if length (shape x) \<le> d \<or> shape x ! d = 0 then Inl IndexError
      else Inr \<lparr>shape = take d (shape x) @ drop (Suc d) (shape x),
                elem = (\<lambda>idx. int (argmax_first (\<lambda>k. elem x (take d idx @ [k] @ drop d idx))
                                      (shape x ! d)))\<rparr>)"

text \<open>\<^verbatim>\<open>(a == b).sum().item()\<close>: the operands are broadcast, the equal positions counted.\<close>

definition count_equal :: "int tensor \<Rightarrow> int tensor \<Rightarrow> error + nat" where
  "count_equal a b =
     and_then (broadcast2 (=) a b) (\<lambda>eq.
     Inr (length (filter (elem eq) (indices (shape eq)))))"

text \<open>\<^verbatim>\<open>Y.size(0)\<close>.\<close>

definition size0 :: "'a tensor \<Rightarrow> error + nat" where
  "size0 Y = (if shape Y = [] then Inl IndexError else Inr (shape Y ! 0))"

text \<open>The loop of \<^verbatim>\<open>compute_classifier_accuracy\<close> (lines 87 to 92).\<close>

fun accuracy_totals ::
  "('x \<Rightarrow> error + fl tensor) \<Rightarrow> ('x \<times> int tensor) list \<Rightarrow> nat \<Rightarrow> nat
     \<Rightarrow> error + (nat \<times> nat)" where
  "accuracy_totals clf [] total_correct total_samples = Inr (total_correct, total_samples)"
| "accuracy_totals clf ((X, Y) # rest) total_correct total_samples =
     and_then (clf X) (\<lambda>outputs.
     and_then (torch_max_indices outputs 1) (\<lambda>predicted.
     and_then (count_equal predicted Y) (\<lambda>n.
     and_then (size0 Y) (\<lambda>b.
     accuracy_totals clf rest (total_correct + n) (total_samples + b)))))"

text \<open>
  \<^verbatim>\<open>compute_classifier_accuracy(classifier, data_loader)\<close>, with the model
  \<^verbatim>\<open>classifier\<close> written \<open>clf\<close>: the quotient of two Python integers, which raises for
  a zero divisor.
\<close>

definition compute_classifier_accuracy ::
  "('x \<Rightarrow> error + fl tensor) \<Rightarrow> ('x \<times> int tensor) list \<Rightarrow> error + real" where
  "compute_classifier_accuracy clf data_loader =
     and_then (accuracy_totals clf data_loader 0 0) (\<lambda>(total_correct, total_samples).
       if total_samples = 0 then Inl ZeroDivisionError
       else Inr (real (100 * total_correct) / real total_samples))"

text \<open>
  The entry point.  The command line is parsed by \<^verbatim>\<open>argparse\<close>, with the one option
  \<^verbatim>\<open>-mode\<close> declared with \<^verbatim>\<open>choices=["e", "d", "se", "sd"]\<close> and no default: the input
  here is the value supplied for the option, if any.  A supplied value outside the
  choices makes \<^verbatim>\<open>parse_args\<close> report a usage error on the error stream and exit with
  status 2; an absent option parses to \<^verbatim>\<open>None\<close>.
\<close>

definition mode_choices :: "string list" where
  "mode_choices = [''e'', ''d'', ''se'', ''sd'']"

definition parse_args :: "string option \<Rightarrow> error + string option" where
  "parse_args supplied =
     (case supplied of
        None \<Rightarrow> Inr None
      | Some v \<Rightarrow> if v \<in> set mode_choices then Inr (Some v) else Inl (SystemExit 2))"

datatype pipeline =
    run_classifier
  | run_decoder
  | run_sanity_check_encoder
  | run_sanity_check_decoder

text \<open>What a run of \<^verbatim>\<open>main\<close> does: the pipeline it starts, if any, the lines it prints
  itself on standard output, and its exit status.\<close>

record run =
  started :: "pipeline option"
  printed :: "string list"
  exit_status :: nat

definition invalid_mode_message :: string where
  "invalid_mode_message = ''Invalid mode. Choose 'c' for classifier or 'd' for decoder.''"

definition main :: "string option \<Rightarrow> run" where
  "main supplied =
     (case parse_args supplied of
        Inl (SystemExit n) \<Rightarrow> \<lparr>started = None, printed = [], exit_status = n\<rparr>
      | Inl _ \<Rightarrow> \<lparr>started = None, printed = [], exit_status = 1\<rparr>
      | Inr mode \<Rightarrow>
          if mode = Some ''e'' then \<lparr>started = Some run_classifier, printed = [], exit_status = 0\<rparr>
          else if mode = Some ''d'' then \<lparr>started = Some run_decoder, printed = [], exit_status = 0\<rparr>
          else if mode = Some ''se''
            then \<lparr>started = Some run_sanity_check_encoder, printed = [], exit_status = 0\<rparr>
          else if mode = Some ''sd''
            then \<lparr>started = Some run_sanity_check_decoder, printed = [], exit_status = 0\<rparr>
          else \<lparr>started = None, printed = [invalid_mode_message], exit_status = 0\<rparr>)"

text \<open>
  The quantities of the accuracy formula \<open>100 \<times> correct / total\<close>, stated on the data and
  not by the loop: the number of samples of a batch whose predicted class (the first
  maximal entry of their row of class probabilities) equals the true label, the number of
  samples of a batch, and whether a model, on a batch, returns one row of at least one
  class probability per label.
\<close>

definition batch_correct :: "fl tensor \<Rightarrow> int tensor \<Rightarrow> nat" where
  "batch_correct outputs Y =
     length (filter (\<lambda>i. int (argmax_first (\<lambda>k. elem outputs [i, k]) (shape outputs ! 1))
                              = elem Y [i])
                    [0..<shape Y ! 0])"

definition batch_samples :: "int tensor \<Rightarrow> nat" where
  "batch_samples Y = shape Y ! 0"

definition classifies :: "('x \<Rightarrow> error + fl tensor) \<Rightarrow> 'x \<times> int tensor \<Rightarrow> bool" where
  "classifies clf batch =
     (case clf (fst batch) of
        Inl e \<Rightarrow> False
      | Inr outputs \<Rightarrow>
          length (shape (snd batch)) = 1 \<and> length (shape outputs) = 2
          \<and> shape outputs ! 0 = shape (snd batch) ! 0 \<and> 0 < shape outputs ! 1)"

definition total_correct_of :: "('x \<Rightarrow> error + fl tensor) \<Rightarrow> ('x \<times> int tensor) list \<Rightarrow> nat" where
  "total_correct_of clf data_loader =
     sum_list (map (\<lambda>batch. batch_correct (projr (clf (fst batch))) (snd batch)) data_loader)"

definition total_samples_of :: "('x \<times> int tensor) list \<Rightarrow> nat" where
  "total_samples_of data_loader = sum_list (map (\<lambda>batch. batch_samples (snd batch)) data_loader)"

section \<open>A small model instance\<close>

text \<open>Concrete sizes and parameter values on which the definitions can be evaluated.\<close>

definition example_constants :: constants where
  "example_constants = \<lparr>n_embd = 2, n_head = 2, n_layer = 1, n_hidden = 3, n_output = 2\<rparr>"

definition example_linear :: "nat \<Rightarrow> nat \<Rightarrow> bool \<Rightarrow> linear" where
  "example_linear in_features out_features has_bias =
     \<lparr>weight = \<lparr>shape = [out_features, in_features], elem = (\<lambda>idx. 1)\<rparr>,
      bias = (if has_bias then Some \<lparr>shape = [out_features], elem = (\<lambda>idx. 0)\<rparr> else None)\<rparr>"

definition example_head :: "bool \<Rightarrow> head" where
  "example_head dec =
     \<lparr>key = example_linear 2 1 False, query = example_linear 2 1 False,
      value = example_linear 2 1 False, tril = tril_ones block_size, decoding = dec\<rparr>"

definition example_input :: "real tensor" where
  "example_input = \<lparr>shape = [1, 2, 2], elem = (\<lambda>idx. 1)\<rparr>"

text \<open>An input whose second position is far from its first.\<close>

definition example_far_input :: "real tensor" where
  "example_far_input = \<lparr>shape = [1, 2, 2], elem = (\<lambda>idx. if idx ! 1 = 1 then 100 else 0)\<rparr>"

definition example_mha :: "bool \<Rightarrow> multi_head_attention" where
  "example_mha dec = \<lparr>heads = [example_head dec, example_head dec], proj = example_linear 2 2 True\<rparr>"

definition example_layer_norm :: layer_norm where
  "example_layer_norm =
     \<lparr>ln_weight = \<lparr>shape = [2], elem = (\<lambda>idx. 1)\<rparr>, ln_bias = \<lparr>shape = [2], elem = (\<lambda>idx. 0)\<rparr>\<rparr>"

definition example_block :: "bool \<Rightarrow> block" where
  "example_block dec =
     \<lparr>sa = example_mha dec,
      ffwd = \<lparr>net0 = example_linear 2 8 True, net2 = example_linear 8 2 True\<rparr>,
      ln1 = example_layer_norm, ln2 = example_layer_norm\<rparr>"

definition example_encoder :: encoder where
  "example_encoder =
     \<lparr>token_embedding_table = \<lparr>shape = [3, 2], elem = (\<lambda>idx. 1)\<rparr>,
      position_embedding_table = \<lparr>shape = [block_size, 2], elem = (\<lambda>idx. 0)\<rparr>,
      blocks = [example_block False],
      ln_f = example_layer_norm,
      classifier = \<lparr>fc1 = example_linear 2 3 True, fc2 = example_linear 3 2 True\<rparr>\<rparr>"

definition example_decoder :: decoder where
  "example_decoder =
     \<lparr>token_embedding_table = \<lparr>shape = [3, 2], elem = (\<lambda>idx. 1)\<rparr>,
      position_embedding_table = \<lparr>shape = [block_size, 2], elem = (\<lambda>idx. 0)\<rparr>,
      blocks = [example_block True],
      ln_f = example_layer_norm,
      lm_head = example_linear 2 3 True\<rparr>"

definition example_idx :: "int tensor" where
  "example_idx = \<lparr>shape = [1, 2], elem = (\<lambda>idx. 0)\<rparr>"



definition example_label :: "int tensor" where
  "example_label = \<lparr>shape = [1], elem = (\<lambda>idx. 0)\<rparr>"

text \<open>A model that predicts class 1 for every sample, a batch of two samples with the
  labels 0 and 1, and a batch of three logit rows with their targets.\<close>

definition example_classifier :: "nat \<Rightarrow> error + fl tensor" where
  "example_classifier X =
     Inr \<lparr>shape = [2, 3], elem = (\<lambda>idx. if idx ! 1 = 1 then Fin 1 else Fin 0)\<rparr>"

definition example_labels :: "int tensor" where
  "example_labels = \<lparr>shape = [2], elem = (\<lambda>idx. int (idx ! 0))\<rparr>"

definition example_loader :: "(nat \<times> int tensor) list" where
  "example_loader = [(0, example_labels)]"

text \<open>A language model whose logits over \<open>X + 1\<close> classes are all zero, and a data loader of
  101 batches of one token each.\<close>

definition example_lm :: "nat \<Rightarrow> error + pyobject" where
  "example_lm X = Inr (Tensor \<lparr>shape = [1, 1, Suc X], elem = (\<lambda>idx. Fin 0)\<rparr>)"

definition example_targets :: "int tensor" where
  "example_targets = \<lparr>shape = [1, 1], elem = (\<lambda>idx. 0)\<rparr>"

definition example_lm_loader :: "(nat \<times> int tensor) list" where
  "example_lm_loader = replicate 100 (0, example_targets) @ [(1, example_targets)]"

definition example_sample :: "nat \<Rightarrow> fl tensor \<Rightarrow> error + int tensor" where
  "example_sample n probs = Inr \<lparr>shape = [1, 1], elem = (\<lambda>idx. 0)\<rparr>"

section \<open>Properties of batch collation\<close>

lemma fold_max_ge_init: "(a::nat) \<le> fold max xs a"
  by (induction xs arbitrary: a) (auto intro: order_trans [OF max.cobounded2])

lemma fold_max_ge_elem: "x \<in> set xs \<Longrightarrow> (x::nat) \<le> fold max xs a"
proof (induction xs arbitrary: a)
  case Nil
  then show ?case by simp
next
  case (Cons y ys)
  show ?case
  proof (cases "x = y")
    case True
    have "y \<le> max y a" by simp
    also have "\<dots> \<le> fold max ys (max y a)" by (rule fold_max_ge_init)
    finally show ?thesis using True by simp
  next
    case False
    with Cons show ?thesis by simp
  qed
qed

lemma pad_sequence_length: "length (pad_sequence seqs v) = length seqs"
  by (simp add: pad_sequence_def Let_def)

lemma pad_sequence_nth:
  assumes "i < length seqs"
  shows "pad_sequence seqs v ! i =
           seqs ! i @ replicate (fold max (map length seqs) 0 - length (seqs ! i)) v"
  using assms by (simp add: pad_sequence_def Let_def)

lemma pad_sequence_row_length:
  assumes "s \<in> set (pad_sequence seqs v)"
  shows "length s = fold max (map length seqs) 0"
proof -
  from assms obtain t where t: "t \<in> set seqs"
    and s: "s = t @ replicate (fold max (map length seqs) 0 - length t) v"
    by (auto simp: pad_sequence_def Let_def)
  from t have "length t \<le> fold max (map length seqs) 0"
    by (intro fold_max_ge_elem) simp
  with s show ?thesis by simp
qed

lemma take_pad_pad:
  assumes "length s \<le> m"
  shows "take n (s @ replicate (m - length s) v) @ replicate (n - min m n) v
           = take n s @ replicate (n - length s) (v::int)"
proof (cases "n \<le> length s")
  case True
  then show ?thesis using assms by simp
next
  case False
  then have "take n (s @ replicate (m - length s) v) = s @ replicate (min (m - length s) (n - length s)) v"
    by simp
  moreover have "min (m - length s) (n - length s) + (n - min m n) = n - length s"
    using assms False by (simp add: min_def)
  ultimately show ?thesis using False
    by (simp add: replicate_add [symmetric])
qed

text \<open>
  Claim C5.  For every non-empty batch, \<^verbatim>\<open>collate_batch\<close> succeeds; every output
  sequence has length exactly \<open>block_size\<close> and is the original sequence truncated from
  the right to \<open>block_size\<close> ids and right-padded with id 0; the labels are stacked, in
  order, into one vector.
\<close>

theorem collate_batch_block_size:
  assumes "batch \<noteq> []"
  shows "\<exists>seqs labels. collate_batch batch = Inr (seqs, labels)
           \<and> length seqs = length batch
           \<and> (\<forall>s \<in> set seqs. length s = block_size)
           \<and> (\<forall>i < length batch.
                 seqs ! i = take block_size (fst (batch ! i))
                              @ replicate (block_size - length (fst (batch ! i))) 0)
           \<and> labels = map snd batch"
proof -
  define data where "data = map fst batch"
  define m where "m = fold max (map length data) 0"
  define truncated where "truncated = map (take block_size) (pad_sequence data 0)"
  define extra where "extra = nat (max 0 (int block_size - int (length (hd truncated))))"
  define seqs where "seqs = map (\<lambda>s. s @ replicate extra 0) truncated"
  have res: "collate_batch batch = Inr (seqs, map snd batch)"
    using assms
    by (simp add: collate_batch_def Let_def seqs_def extra_def truncated_def data_def)
  have len_data: "length data = length batch" by (simp add: data_def)
  have len_trunc: "length truncated = length batch"
    by (simp add: truncated_def pad_sequence_length len_data)
  have trunc_ne: "truncated \<noteq> []" using assms len_trunc by auto
  have row: "length t = min m block_size" if "t \<in> set truncated" for t
    using that pad_sequence_row_length [of _ data 0]
    by (auto simp: truncated_def m_def)
  have "hd truncated \<in> set truncated" using trunc_ne by simp
  then have width: "length (hd truncated) = min m block_size" by (rule row)
  have extra: "extra = block_size - min m block_size"
    by (simp add: extra_def width)
  have nth: "seqs ! i = take block_size (fst (batch ! i))
                          @ replicate (block_size - length (fst (batch ! i))) 0"
    if i: "i < length batch" for i
  proof -
    have le: "length (data ! i) \<le> m"
      unfolding m_def using i len_data by (intro fold_max_ge_elem) simp
    have "seqs ! i = take block_size (data ! i @ replicate (m - length (data ! i)) 0)
                       @ replicate (block_size - min m block_size) 0"
      using i len_data len_trunc
      by (simp add: seqs_def truncated_def pad_sequence_length pad_sequence_nth m_def extra)
    also have "\<dots> = take block_size (data ! i) @ replicate (block_size - length (data ! i)) 0"
      by (rule take_pad_pad [OF le])
    finally show ?thesis using i by (simp add: data_def)
  qed
  have len_seqs: "length seqs = length batch" by (simp add: seqs_def len_trunc)
  have all_len: "length s = block_size" if "s \<in> set seqs" for s
  proof -
    from that obtain i where "i < length seqs" "s = seqs ! i"
      by (auto simp: in_set_conv_nth)
    then show ?thesis using nth [of i] len_seqs by simp
  qed
  show ?thesis using res len_seqs all_len nth by blast
qed

theorem collate_batch_block_size_witness:
  "[([1, 2, 3], 0), ([4], 1)] \<noteq> ([] :: (int list \<times> int) list)
   \<and> (\<exists>seqs labels. collate_batch [([1, 2, 3], 0), ([4], 1)] = Inr (seqs, labels)
           \<and> length seqs = 2
           \<and> (\<forall>s \<in> set seqs. length s = block_size)
           \<and> labels = [0, 1])"
  using collate_batch_block_size [of "[([1, 2, 3], 0), ([4], 1)]"] by auto

section \<open>Facts about floating-point numbers and tensors\<close>

lemma and_then_Inr [simp]: "and_then (Inr v) f = f v"
  by (simp add: and_then_def)

lemma and_then_Inl [simp]: "and_then (Inl e) f = Inl e"
  by (simp add: and_then_def)

lemma tensor_map_shape [simp]: "shape (tensor_map f x) = shape x"
  by (simp add: tensor_map_def)

lemma tensor_map_elem [simp]: "elem (tensor_map f x) idx = f (elem x idx)"
  by (simp add: tensor_map_def)

lemma tensor_map_Fin_intro:
  "\<lparr>shape = s, elem = (\<lambda>idx. Fin (f idx))\<rparr> = tensor_map Fin \<lparr>shape = s, elem = f\<rparr>"
  by (simp add: tensor_map_def)


lemma fl_sum_cong: "(\<And>k. k < n \<Longrightarrow> f k = g k) \<Longrightarrow> fl_sum f n = fl_sum g n"
  by (induction n) simp_all

lemma fl_maximum_cong: "(\<And>k. k < n \<Longrightarrow> f k = g k) \<Longrightarrow> fl_maximum f n = fl_maximum g n"
  by (induction n) simp_all

lemma exp32_zero [simp]: "exp32 0 = Fin 1"
  by (simp add: exp32_def)


lemma exp32_underflow:
  assumes "r \<le> - 150"
  shows "exp32 r = Fin 0"
proof -
  have "(2::real) \<le> exp 1" using exp_ge_add_one_self [of 1] by simp
  then have "(2::real) ^ 150 \<le> exp 1 ^ 150" by (intro power_mono) simp_all
  also have "\<dots> = exp (150::real)"
    using exp_of_nat_mult [of 150 "1::real"] by simp
  also have "\<dots> \<le> exp (- r)" using assms by simp
  finally have "2 ^ 150 \<le> exp (- r)" .
  then have "1 / exp (- r) \<le> 1 / 2 ^ 150"
    by (intro divide_left_mono) simp_all
  then have "exp r \<le> 1 / 2 ^ 150" by (simp add: exp_minus field_simps)
  then show ?thesis by (simp add: exp32_def)
qed




section \<open>Properties of the attention head\<close>

lemma broadcast_batch: "broadcast_shapes [B] [B] = Some [B]"
  by (simp add: broadcast_shapes_def)

lemma broadcast_mask_ok: "broadcast_shapes [B, T, T] [T, T] = Some [B, T, T]"
  by (simp add: broadcast_shapes_def)

lemma broadcast_mask_fail:
  assumes "m \<noteq> T" "m \<noteq> 1" "T \<noteq> 1"
  shows "broadcast_shapes [B, T, T] [m, m] = None"
  using assms by (simp add: broadcast_shapes_def)

lemma Linear_forward_shape:
  assumes "is_Linear i out b l" "shape x = pre @ [i]"
  shows "\<exists>y. Linear_forward l x = Inr y \<and> shape y = pre @ [out]"
  using assms by (simp add: Linear_forward_def is_Linear_def Let_def)

lemma transpose_last2_shape3:
  assumes "shape x = [B, n, m]"
  shows "\<exists>y. transpose_last2 x = Inr y \<and> shape y = [B, m, n]"
  using assms by (simp add: transpose_last2_def swap_last2_def)

lemma matmul_shape3:
  assumes "shape a = [B, n, m]" "shape b = [B, m, p]"
  shows "\<exists>y. matmul a b = Inr y \<and> shape y = [B, n, p]"
  using assms by (simp add: matmul_def Let_def broadcast_batch)

lemma scale_shape [simp]: "shape (scale x s) = shape x"
  by (simp add: scale_def)

lemma affinities_shape:
  assumes h: "is_Head c head_size dec h" and hs: "0 < head_size"
    and x: "shape x = [B, T, n_embd c]"
  shows "\<exists>sc. affinities h x = Inr sc \<and> shape sc = [B, T, T]"
proof -
  from h have kl: "is_Linear (n_embd c) head_size False (key h)"
    and ql: "is_Linear (n_embd c) head_size False (query h)"
    by (simp_all add: is_Head_def)
  from Linear_forward_shape [OF kl, of x "[B, T]"] x
  obtain k where k: "Linear_forward (key h) x = Inr k" "shape k = [B, T, head_size]" by auto
  from Linear_forward_shape [OF ql, of x "[B, T]"] x
  obtain q where q: "Linear_forward (query h) x = Inr q" "shape q = [B, T, head_size]" by auto
  from transpose_last2_shape3 [OF k(2)]
  obtain kT where kT: "transpose_last2 k = Inr kT" "shape kT = [B, head_size, T]" by auto
  from matmul_shape3 [OF q(2) kT(2)]
  obtain qk where qk: "matmul q kT = Inr qk" "shape qk = [B, T, T]" by auto
  have p: "pow_neg_half head_size = Inr (1 / sqrt (real head_size))"
    using hs by (simp add: pow_neg_half_def)
  show ?thesis by (simp add: affinities_def k q kT qk p)
qed






lemma bproj_id3:
  assumes "b < B" "i < T" "j < T"
  shows "bproj [B, T, T] [b, i, j] = [b, i, j]"
  using assms by (auto simp: bproj_def)

lemma bproj_mask:
  assumes "i < T" "j < T"
  shows "bproj [T, T] [b, i, j] = [i, j]"
  using assms by (auto simp: bproj_def)

lemma masked_fill_causal:
  assumes sc: "shape sc = [B, T, T]" and T: "T \<le> block_size"
  shows "\<exists>w. masked_fill sc (tensor_map (\<lambda>v. v = 0) (slice2 (tril_ones block_size) T)) NegInf = Inr w
           \<and> shape w = [B, T, T]
           \<and> (\<forall>b<B. \<forall>i<T. \<forall>j<T.
                 elem w [b, i, j] = (if j \<le> i then elem sc [b, i, j] else NegInf))"
  using assms
  by (simp add: masked_fill_def broadcast2_def slice2_def tril_ones_def min_absorb1
      broadcast_mask_ok bproj_id3 bproj_mask)

lemma softmax_shape:
  assumes "d < length (shape w)"
  shows "\<exists>y. softmax w d = Inr y \<and> shape y = shape w"
  using assms by (simp add: softmax_def)

lemma Head_wei_shape:
  assumes h: "is_Head c head_size dec h" and hs: "0 < head_size"
    and x: "shape x = [B, T, n_embd c]" and T: "dec \<longrightarrow> T \<le> block_size"
  shows "\<exists>w. Head_wei h x = Inr w \<and> shape w = [B, T, T]"
proof -
  from affinities_shape [OF h hs x] obtain sc where
    sc: "affinities h x = Inr sc" "shape sc = [B, T, T]" by blast
  from h have tr: "tril h = tril_ones block_size" and d: "decoding h = dec"
    by (simp_all add: is_Head_def)
  show ?thesis
  proof (cases dec)
    case True
    with T have "T \<le> block_size" by simp
    from masked_fill_causal [OF sc(2) this] obtain m where
      m: "masked_fill sc (tensor_map (\<lambda>v. v = 0) (slice2 (tril_ones block_size) T)) NegInf = Inr m"
        "shape m = [B, T, T]"
      by blast
    from softmax_shape [of "Suc (Suc 0)" m] m(2) show ?thesis
      using True by (simp add: Head_wei_def x sc(1) tr d m(1))
  next
    case False
    from softmax_shape [of "Suc (Suc 0)" sc] sc(2) show ?thesis
      using False by (simp add: Head_wei_def x sc(1) d)
  qed
qed

lemma Head_forward_shape:
  assumes h: "is_Head c head_size dec h" and hs: "0 < head_size"
    and x: "shape x = [B, T, n_embd c]" and T: "dec \<longrightarrow> T \<le> block_size"
  shows "\<exists>out. Head_forward h x = Inr out \<and> shape out = [B, T, head_size]"
proof -
  from Head_wei_shape [OF h hs x T]
  obtain w where w: "Head_wei h x = Inr w" "shape w = [B, T, T]" by blast
  from h have vl: "is_Linear (n_embd c) head_size False (value h)" by (simp add: is_Head_def)
  from Linear_forward_shape [OF vl, of x "[B, T]"] x
  obtain v where v: "Linear_forward (value h) x = Inr v" "shape v = [B, T, head_size]" by auto
  from matmul_shape3 [OF w(2) v(2)] show ?thesis
    by (simp add: Head_forward_def w(1) v(1))
qed

lemma example_head_is_Head: "is_Head example_constants 1 dec (example_head dec)"
  by (simp add: is_Head_def is_Linear_def example_head_def example_linear_def example_constants_def)



text \<open>
  An unmasked weight can be exactly zero: on an input whose two positions give the scores
  0 and 40000 in one row, the exponential of the smaller one underflows.
\<close>

lemma example_weight_underflow:
  "\<exists>w. Head_wei (example_head False) (tensor_map Fin example_far_input) = Inr w
     \<and> elem w [0, 1, 0] = Fin 0 \<and> elem w [0, 1, 1] = Fin 1"
proof -
  have e: "exp32 (- 40000) = Fin 0" by (rule exp32_underflow) simp
  show ?thesis
    by (simp add: Head_wei_def affinities_def Linear_forward_def example_head_def
        example_linear_def example_far_input_def transpose_last2_def swap_last2_def matmul_def
        Let_def broadcast_batch pow_neg_half_def scale_def tensor_map_def numeral_2_eq_2
        softmax_def fl_max_def fl_sub_def bproj_def e)
qed



text \<open>
  Claim C9.  The causal mask of a decoding head is the fixed \<open>block_size\<close> by
  \<open>block_size\<close> lower-triangular buffer sliced to its first \<open>T\<close> rows and columns.  For
  \<open>T \<le> block_size\<close> the slice is \<open>T\<close> by \<open>T\<close>, matches the affinity matrix, and the
  forward pass succeeds for every input; for \<open>T > block_size\<close> the slice does not match
  and the masking step raises.
\<close>

theorem Head_forward_mask_defined:
  assumes h: "is_Head c head_size True h" and hs: "0 < head_size"
    and x: "shape x = [B, T, n_embd c]"
  shows "shape (slice2 (tril h) T) = [min T block_size, min T block_size]
         \<and> (T \<le> block_size \<longrightarrow>
              shape (slice2 (tril h) T) = [T, T]
              \<and> (\<exists>out. Head_forward h x = Inr out \<and> shape out = [B, T, head_size]))
         \<and> (block_size < T \<longrightarrow> Head_forward h x = Inl RuntimeError)"
proof -
  from h have tr: "tril h = tril_ones block_size" and d: "decoding h"
    by (simp_all add: is_Head_def)
  have sl: "shape (slice2 (tril h) T) = [min T block_size, min T block_size]"
    by (simp add: tr slice2_def tril_ones_def)
  have ok: "\<exists>out. Head_forward h x = Inr out \<and> shape out = [B, T, head_size]"
    if "T \<le> block_size"
    using Head_forward_shape [OF h hs x] that by simp
  have bad: "Head_forward h x = Inl RuntimeError" if T: "block_size < T"
  proof -
    from affinities_shape [OF h hs x] obtain sc where
      sc: "affinities h x = Inr sc" "shape sc = [B, T, T]" by blast
    have "broadcast_shapes [B, T, T] [block_size, block_size] = None"
      using T by (intro broadcast_mask_fail) (simp_all add: block_size_def)
    then have "masked_fill sc (tensor_map (\<lambda>v. v = 0) (slice2 (tril_ones block_size) T)) NegInf
                 = Inl RuntimeError"
      using T sc(2) by (simp add: masked_fill_def broadcast2_def slice2_def tril_ones_def min_absorb2)
    then show ?thesis by (simp add: Head_forward_def Head_wei_def x sc(1) tr d)
  qed
  from sl ok bad show ?thesis by (simp add: min_absorb1)
qed

theorem Head_forward_mask_defined_witness:
  "shape (slice2 (tril (example_head True)) 2) = [2, 2]
   \<and> (\<exists>out. Head_forward (example_head True) (tensor_map Fin example_input) = Inr out
         \<and> shape out = [1, 2, 1])
   \<and> Head_forward (example_head True) \<lparr>shape = [1, 33, 2], elem = (\<lambda>idx. Fin 1)\<rparr>
       = Inl RuntimeError"
proof -
  have x: "shape (tensor_map Fin example_input) = [1, 2, n_embd example_constants]"
    by (simp add: example_input_def example_constants_def)
  have y: "shape \<lparr>shape = [1, 33, 2], elem = (\<lambda>idx. Fin 1)\<rparr> = [1, 33, n_embd example_constants]"
    by (simp add: example_constants_def)
  have hs: "(0::nat) < 1" by simp
  from Head_forward_mask_defined [OF example_head_is_Head hs x]
  have a: "shape (slice2 (tril (example_head True)) 2) = [2, 2]
   \<and> (\<exists>out. Head_forward (example_head True) (tensor_map Fin example_input) = Inr out
         \<and> shape out = [1, 2, 1])"
    by (simp add: block_size_def)
  from Head_forward_mask_defined [OF example_head_is_Head hs y]
  have b: "Head_forward (example_head True) \<lparr>shape = [1, 33, 2], elem = (\<lambda>idx. Fin 1)\<rparr>
             = Inl RuntimeError"
    by (simp add: block_size_def)
  from a b show ?thesis by blast
qed

section \<open>Properties of multi-head attention\<close>

lemma collect_map_ok:
  assumes "\<forall>h \<in> set hs. \<exists>v. f h = Inr v"
  shows "collect (map f hs) = Inr (map (\<lambda>h. projr (f h)) hs)"
  using assms by (induction hs) auto

lemma cat2_last3:
  assumes a: "shape a = [B, T, n]" and b: "shape b = [B, T, m]"
  shows "cat2 2 a b = Inr \<lparr>shape = [B, T, n + m],
           elem = (\<lambda>idx. if idx ! 2 < n then elem a idx else elem b (idx[2 := idx ! 2 - n]))\<rparr>"
  using assms by (simp add: cat2_def cong: if_cong)

lemma foldl_cat2:
  assumes t: "shape t = [B, T, hs]" and us: "\<forall>u \<in> set us. shape u = [B, T, hs]"
  shows "\<exists>out. foldl (\<lambda>acc u. and_then acc (\<lambda>a. cat2 2 a u)) (Inr t) us = Inr out
           \<and> shape out = [B, T, Suc (length us) * hs]
           \<and> (\<forall>i < Suc (length us). \<forall>k < hs. \<forall>b t'.
                 elem out [b, t', i * hs + k] = elem ((t # us) ! i) [b, t', k])"
  using us
proof (induction us rule: rev_induct)
  case Nil
  then show ?case using t by simp
next
  case (snoc u us)
  then obtain out where out: "foldl (\<lambda>acc u. and_then acc (\<lambda>a. cat2 2 a u)) (Inr t) us = Inr out"
    and so: "shape out = [B, T, Suc (length us) * hs]"
    and eo: "\<And>i k b t'. i < Suc (length us) \<Longrightarrow> k < hs \<Longrightarrow>
                 elem out [b, t', i * hs + k] = elem ((t # us) ! i) [b, t', k]"
    by auto
  from snoc.prems have su: "shape u = [B, T, hs]" by simp
  define out' where "out' = \<lparr>shape = [B, T, Suc (length us) * hs + hs],
           elem = (\<lambda>idx. if idx ! 2 < Suc (length us) * hs then elem out idx
                          else elem u (idx[2 := idx ! 2 - Suc (length us) * hs]))\<rparr>"
  have res: "foldl (\<lambda>acc u. and_then acc (\<lambda>a. cat2 2 a u)) (Inr t) (us @ [u]) = Inr out'"
    by (simp add: out cat2_last3 [OF so su] out'_def)
  have el: "elem out' [b, t', i * hs + k] = elem ((t # us @ [u]) ! i) [b, t', k]"
    if i: "i < Suc (length (us @ [u]))" and k: "k < hs" for i k b t'
  proof (cases "i < Suc (length us)")
    case True
    then have "Suc i \<le> Suc (length us)" by simp
    then have "Suc i * hs \<le> Suc (length us) * hs" by (rule mult_le_mono1)
    moreover have "i * hs + k < Suc i * hs" using k by simp
    ultimately have lt: "i * hs + k < Suc (length us) * hs" by linarith
    have "(t # us @ [u]) ! i = (t # us) ! i"
      using True by (cases i) (simp_all add: nth_append)
    then show ?thesis using lt eo [OF True k] by (simp add: out'_def)
  next
    case False
    with i have ieq: "i = Suc (length us)" by simp
    have "(t # us @ [u]) ! i = u" by (simp add: ieq)
    then show ?thesis by (simp add: out'_def ieq)
  qed
  have "shape out' = [B, T, Suc (length (us @ [u])) * hs]"
    by (simp add: out'_def)
  with res el show ?case by blast
qed

lemma torch_cat_last3:
  assumes ne: "ts \<noteq> []" and sh: "\<forall>u \<in> set ts. shape u = [B, T, hs]"
  shows "\<exists>out. torch_cat ts (length (shape (hd ts)) - 1) = Inr out
           \<and> shape out = [B, T, length ts * hs]
           \<and> (\<forall>i < length ts. \<forall>k < hs. \<forall>b t'.
                 elem out [b, t', i * hs + k] = elem (ts ! i) [b, t', k])"
proof -
  from ne obtain t us where ts: "ts = t # us" by (cases ts) auto
  with sh have t: "shape t = [B, T, hs]" and us: "\<forall>u \<in> set us. shape u = [B, T, hs]"
    by simp_all
  from foldl_cat2 [OF t us] show ?thesis
    by (simp add: ts torch_cat_def t numeral_2_eq_2)
qed

lemma MultiHeadAttention_forward_shape:
  assumes m: "is_MultiHeadAttention c num_heads head_size dec m"
    and hs: "0 < head_size" and nh: "0 < num_heads"
    and x: "shape x = [B, T, n_embd c]" and T: "dec \<longrightarrow> T \<le> block_size"
  shows "\<exists>outs out.
           length outs = num_heads
           \<and> (\<forall>i < num_heads. Head_forward (heads m ! i) x = Inr (outs ! i)
                  \<and> shape (outs ! i) = [B, T, head_size])
           \<and> MultiHeadAttention_forward m x = Inr out
           \<and> shape out = [B, T, num_heads * head_size]
           \<and> (\<forall>i < num_heads. \<forall>k < head_size. \<forall>b t.
                 elem out [b, t, i * head_size + k] = elem (outs ! i) [b, t, k])"
proof -
  define outs where "outs = map (\<lambda>h. projr (Head_forward h x)) (heads m)"
  from m have len: "length (heads m) = num_heads"
    and hd: "\<And>h. h \<in> set (heads m) \<Longrightarrow> is_Head c head_size dec h"
    by (simp_all add: is_MultiHeadAttention_def)
  have each: "\<exists>out. Head_forward h x = Inr out \<and> shape out = [B, T, head_size]"
    if "h \<in> set (heads m)" for h
    using Head_forward_shape [OF hd [OF that] hs x T] .
  then have col: "collect (map (\<lambda>h. Head_forward h x) (heads m)) = Inr outs"
    unfolding outs_def by (intro collect_map_ok) blast
  have lo: "length outs = num_heads" by (simp add: outs_def len)
  have nth: "Head_forward (heads m ! i) x = Inr (outs ! i) \<and> shape (outs ! i) = [B, T, head_size]"
    if "i < num_heads" for i
  proof -
    from that len have "heads m ! i \<in> set (heads m)" by simp
    from each [OF this] that len show ?thesis by (auto simp: outs_def)
  qed
  have ne: "outs \<noteq> []" using lo nh by auto
  have sh: "\<forall>u \<in> set outs. shape u = [B, T, head_size]"
    using nth lo by (auto simp: in_set_conv_nth)
  from torch_cat_last3 [OF ne sh] obtain out where
    "torch_cat outs (length (shape (hd outs)) - 1) = Inr out"
    "shape out = [B, T, length outs * head_size]"
    "\<forall>i < length outs. \<forall>k < head_size. \<forall>b t'.
                 elem out [b, t', i * head_size + k] = elem (outs ! i) [b, t', k]"
    by blast
  then show ?thesis using lo nth col
    by (intro exI [of _ outs] exI [of _ out]) (simp add: MultiHeadAttention_forward_def)
qed

text \<open>
  Claim C4.  \<^verbatim>\<open>MultiHeadAttention.forward\<close> does not depend on the declared output
  projection (it is never applied), and for an input on which the heads are defined it
  returns the concatenation, along the feature axis, of the outputs of its \<open>num_heads\<close>
  heads: a tensor of shape \<open>(B, T, num_heads * head_size)\<close> whose features
  \<open>i * head_size ..< (i + 1) * head_size\<close> are the output of head \<open>i\<close>.
\<close>

theorem MultiHeadAttention_forward_concat:
  "MultiHeadAttention_forward (m\<lparr>proj := p\<rparr>) x = MultiHeadAttention_forward m x
   \<and> (is_MultiHeadAttention c num_heads head_size dec m \<and> 0 < head_size \<and> 0 < num_heads
        \<and> shape x = [B, T, n_embd c] \<and> (dec \<longrightarrow> T \<le> block_size) \<longrightarrow>
       (\<exists>outs out.
           length outs = num_heads
           \<and> (\<forall>i < num_heads. Head_forward (heads m ! i) x = Inr (outs ! i)
                  \<and> shape (outs ! i) = [B, T, head_size])
           \<and> MultiHeadAttention_forward m x = Inr out
           \<and> shape out = [B, T, num_heads * head_size]
           \<and> (\<forall>i < num_heads. \<forall>k < head_size. \<forall>b t.
                 elem out [b, t, i * head_size + k] = elem (outs ! i) [b, t, k])))"
proof -
  have "MultiHeadAttention_forward (m\<lparr>proj := p\<rparr>) x = MultiHeadAttention_forward m x"
    by (simp add: MultiHeadAttention_forward_def)
  then show ?thesis using MultiHeadAttention_forward_shape [of c num_heads head_size dec m x B T]
    by blast
qed

lemma example_mha_is_MultiHeadAttention:
  "is_MultiHeadAttention example_constants 2 1 dec (example_mha dec)"
proof -
  have "is_Linear (1 * 2) (n_embd example_constants) True (example_linear 2 2 True)"
    by (simp add: is_Linear_def example_linear_def example_constants_def)
  then show ?thesis
    using example_head_is_Head [of dec]
    by (simp add: is_MultiHeadAttention_def example_mha_def)
qed

theorem MultiHeadAttention_forward_concat_witness:
  "\<exists>outs out.
      length outs = 2
      \<and> Head_forward (heads (example_mha True) ! 1) (tensor_map Fin example_input) = Inr (outs ! 1)
      \<and> MultiHeadAttention_forward (example_mha True) (tensor_map Fin example_input) = Inr out
      \<and> shape out = [1, 2, 2]
      \<and> elem out [0, 0, 1] = elem (outs ! 1) [0, 0, 0]"
proof -
  have x: "shape (tensor_map Fin example_input) = [1, 2, n_embd example_constants]"
    by (simp add: example_input_def example_constants_def)
  have T: "True \<longrightarrow> (2::nat) \<le> block_size" by (simp add: block_size_def)
  from MultiHeadAttention_forward_concat
         [where m = "example_mha True" and p = "proj (example_mha True)"
            and x = "tensor_map Fin example_input"
            and c = example_constants and num_heads = 2 and head_size = 1 and dec = True
            and B = 1 and T = 2]
       example_mha_is_MultiHeadAttention [of True] x T
  obtain outs out where len: "length outs = 2"
    and hd: "\<forall>i < 2. Head_forward (heads (example_mha True) ! i) (tensor_map Fin example_input)
                    = Inr (outs ! i)
                  \<and> shape (outs ! i) = [1, 2, 1]"
    and res: "MultiHeadAttention_forward (example_mha True) (tensor_map Fin example_input) = Inr out"
    and sh: "shape out = [1, 2, 2 * 1]"
    and el: "\<forall>i < 2. \<forall>k < 1. \<forall>b t. elem out [b, t, i * 1 + k] = elem (outs ! i) [b, t, k]"
    by auto
  from hd have "Head_forward (heads (example_mha True) ! 1) (tensor_map Fin example_input)
                  = Inr (outs ! 1)"
    by simp
  moreover from el have "elem out [0, 0, 1] = elem (outs ! 1) [0, 0, 0]"
    by (metis add.right_neutral less_numeral_extra(1) mult.right_neutral one_less_numeral_iff semiring_norm(76))
  ultimately show ?thesis using len res sh by auto
qed

section \<open>Properties of the encoder\<close>

lemma broadcast_rev_same: "broadcast_rev xs xs = Some xs"
  by (induction xs) simp_all

lemma broadcast_shapes_same: "broadcast_shapes s s = Some s"
  by (simp add: broadcast_shapes_def broadcast_rev_same)

lemma torch_add_same_shape:
  assumes "shape a = s" "shape b = s"
  shows "\<exists>y. torch_add a b = Inr y \<and> shape y = s"
  using assms by (simp add: torch_add_def broadcast2_def broadcast_shapes_same)

lemma LayerNorm_forward_shape:
  assumes "is_LayerNorm n l" "shape x = pre @ [n]"
  shows "\<exists>y. LayerNorm_forward l x = Inr y \<and> shape y = pre @ [n]"
  using assms by (simp add: LayerNorm_forward_def is_LayerNorm_def Let_def)

lemma relu_shape [simp]: "shape (relu x) = shape x"
  by (simp add: relu_def)

lemma FeedFoward_forward_shape:
  assumes f: "is_FeedFoward n f" and x: "shape x = pre @ [n]"
  shows "\<exists>y. FeedFoward_forward f x = Inr y \<and> shape y = pre @ [n]"
proof -
  from f have l0: "is_Linear n (4 * n) True (net0 f)" and l2: "is_Linear (4 * n) n True (net2 f)"
    by (simp_all add: is_FeedFoward_def)
  from Linear_forward_shape [OF l0 x] obtain y where
    y: "Linear_forward (net0 f) x = Inr y" "shape y = pre @ [4 * n]" by blast
  from y(2) have "shape (relu y) = pre @ [4 * n]" by simp
  from Linear_forward_shape [OF l2 this] show ?thesis
    by (simp add: FeedFoward_forward_def y(1))
qed

lemma Block_forward_shape:
  assumes b: "is_Block c dec b" and dv: "n_head c dvd n_embd c" and ne: "0 < n_embd c"
    and x: "shape x = [B, T, n_embd c]" and T: "dec \<longrightarrow> T \<le> block_size"
  shows "\<exists>y. Block_forward b x = Inr y \<and> shape y = [B, T, n_embd c]"
proof -
  from b have nh: "0 < n_head c"
    and m: "is_MultiHeadAttention c (n_head c) (n_embd c div n_head c) dec (sa b)"
    and ff: "is_FeedFoward (n_embd c) (ffwd b)"
    and l1: "is_LayerNorm (n_embd c) (ln1 b)" and l2: "is_LayerNorm (n_embd c) (ln2 b)"
    by (simp_all add: is_Block_def)
  from dv have prod: "n_head c * (n_embd c div n_head c) = n_embd c" by simp
  with ne have hs: "0 < n_embd c div n_head c"
    by (metis mult_0_right neq0_conv)
  have x': "shape x = [B, T] @ [n_embd c]" using x by simp
  from LayerNorm_forward_shape [OF l1 x'] obtain n1 where
    n1: "LayerNorm_forward (ln1 b) x = Inr n1" "shape n1 = [B, T, n_embd c]" by auto
  from MultiHeadAttention_forward_shape [OF m hs nh n1(2) T] prod obtain a where
    a: "MultiHeadAttention_forward (sa b) n1 = Inr a" "shape a = [B, T, n_embd c]" by auto
  from torch_add_same_shape [OF x a(2)] obtain x1 where
    x1: "torch_add x a = Inr x1" "shape x1 = [B, T, n_embd c]" by blast
  have x1': "shape x1 = [B, T] @ [n_embd c]" using x1(2) by simp
  from LayerNorm_forward_shape [OF l2 x1'] obtain n2 where
    n2: "LayerNorm_forward (ln2 b) x1 = Inr n2" "shape n2 = [B, T] @ [n_embd c]" by auto
  from FeedFoward_forward_shape [OF ff n2(2)] obtain f where
    f: "FeedFoward_forward (ffwd b) n2 = Inr f" "shape f = [B, T, n_embd c]" by auto
  from torch_add_same_shape [OF x1(2) f(2)] show ?thesis
    by (simp add: Block_forward_def n1(1) a(1) x1(1) n2(1) f(1))
qed

lemma Sequential_forward_shape:
  assumes bs: "\<forall>b \<in> set bs. is_Block c dec b" and dv: "n_head c dvd n_embd c"
    and ne: "0 < n_embd c"
    and x: "shape x = [B, T, n_embd c]" and T: "dec \<longrightarrow> T \<le> block_size"
  shows "\<exists>y. Sequential_forward bs x = Inr y \<and> shape y = [B, T, n_embd c]"
  using bs x
proof (induction bs arbitrary: x)
  case Nil
  then show ?case by simp
next
  case (Cons b bs)
  from Cons.prems have "is_Block c dec b" by simp
  from Block_forward_shape [OF this dv ne Cons.prems(2) T] obtain y where
    y: "Block_forward b x = Inr y" "shape y = [B, T, n_embd c]" by blast
  from Cons.IH [OF _ y(2)] Cons.prems(1) show ?case by (simp add: y(1))
qed

lemma in_indices_iff: "idx \<in> set (indices s) \<longleftrightarrow> list_all2 (<) idx s"
proof (induction s arbitrary: idx)
  case Nil
  then show ?case by simp
next
  case (Cons d ds)
  show ?case
  proof (cases idx)
    case Nil
    then show ?thesis by auto
  next
    case (Cons a list)
    have "a # list \<in> (#) i ` set (indices ds) \<longleftrightarrow> a = i \<and> list \<in> set (indices ds)" for i
      by auto
    then show ?thesis using Cons by (simp add: Cons.IH)
  qed
qed

lemma Embedding_forward_shape:
  assumes w: "shape w = [num, dm]"
    and r: "\<And>i. list_all2 (<) i (shape idx) \<Longrightarrow> 0 \<le> elem idx i \<and> elem idx i < int num"
  shows "\<exists>y. Embedding_forward w idx = Inr y \<and> shape y = shape idx @ [dm]"
proof -
  have "list_all (\<lambda>i. 0 \<le> elem idx i \<and> elem idx i < int num) (indices (shape idx))"
    using r by (simp add: list_all_iff in_indices_iff)
  then show ?thesis by (simp add: Embedding_forward_def w)
qed

lemma broadcast_pos: "broadcast_shapes [B, T, C] [T, C] = Some [B, T, C]"
  by (simp add: broadcast_shapes_def)

lemma hidden_states_shape:
  assumes tok: "shape (token_embedding_table m) = [vocab_size, n_embd c]"
    and pos: "shape (position_embedding_table m) = [block_size, n_embd c]"
    and bl: "\<forall>b \<in> set (blocks m). is_Block c dec b"
    and ln: "is_LayerNorm (n_embd c) (ln_f m)"
    and dv: "n_head c dvd n_embd c" and ne: "0 < n_embd c"
    and idx: "shape idx = [B, T]" and T: "T \<le> block_size"
    and ids: "\<forall>b<B. \<forall>t<T. 0 \<le> elem idx [b, t] \<and> elem idx [b, t] < int vocab_size"
  shows "\<exists>x. hidden_states m idx = Inr x \<and> shape x = [B, T, n_embd c]"
proof -
  have "0 \<le> elem idx i \<and> elem idx i < int vocab_size" if "list_all2 (<) i (shape idx)" for i
    using that ids by (auto simp: idx list_all2_Cons2)
  from Embedding_forward_shape [OF tok this] obtain te where
    te: "Embedding_forward (token_embedding_table m) idx = Inr te" "shape te = [B, T, n_embd c]"
    by (auto simp: idx)
  have "0 \<le> elem (arange T) i \<and> elem (arange T) i < int block_size"
    if "list_all2 (<) i (shape (arange T))" for i
    using that T by (auto simp: arange_def list_all2_Cons2)
  from Embedding_forward_shape [OF pos this] obtain pe where
    pe: "Embedding_forward (position_embedding_table m) (arange T) = Inr pe"
      "shape pe = [T, n_embd c]"
    by (auto simp: arange_def)
  have "\<exists>x0. torch_add te pe = Inr x0 \<and> shape x0 = [B, T, n_embd c]"
    by (simp add: torch_add_def broadcast2_def te(2) pe(2) broadcast_pos)
  then obtain x0 where add: "torch_add te pe = Inr x0" and x0: "shape x0 = [B, T, n_embd c]"
    by blast
  have dT: "dec \<longrightarrow> T \<le> block_size" using T by simp
  from Sequential_forward_shape [OF bl dv ne x0 dT] obtain y where
    y: "Sequential_forward (blocks m) x0 = Inr y" "shape y = [B, T, n_embd c]"
    by blast
  have "shape y = [B, T] @ [n_embd c]" using y(2) by simp
  from LayerNorm_forward_shape [OF ln this] show ?thesis
    by (simp add: hidden_states_def idx te(1) pe(1) add y(1))
qed

subsection \<open>Activations that hold numbers only\<close>





lemma is_fin_relu [simp]: "is_fin a \<Longrightarrow> is_fin (fl_max (Fin 0) a)"
  by (cases a) (simp_all add: fl_max_def)


lemma all_fin_tensor_map_Fin [simp]: "all_fin (tensor_map Fin x)"
  by (simp add: all_fin_def)

























lemma example_block_is_Block: "is_Block example_constants dec (example_block dec)"
proof -
  have c: "n_head example_constants = 2" "n_embd example_constants = 2"
    by (simp_all add: example_constants_def)
  have "is_FeedFoward 2 \<lparr>net0 = example_linear 2 8 True, net2 = example_linear 8 2 True\<rparr>"
    by (simp add: is_FeedFoward_def is_Linear_def example_linear_def)
  moreover have "is_LayerNorm 2 example_layer_norm"
    by (simp add: is_LayerNorm_def example_layer_norm_def)
  ultimately show ?thesis
    using example_mha_is_MultiHeadAttention [of dec]
    by (simp add: is_Block_def c example_block_def)
qed




section \<open>Properties of the accuracy evaluation\<close>

lemma indices_1d: "indices [b] = map (\<lambda>i. [i]) [0..<b]"
  by (simp add: map_concat comp_def)

lemma accuracy_batch:
  assumes out: "shape outputs = [b, n]" and n: "0 < n" and Y: "shape Y = [b]"
  shows "\<exists>predicted. torch_max_indices outputs 1 = Inr predicted
           \<and> count_equal predicted Y = Inr (batch_correct outputs Y)
           \<and> size0 Y = Inr b"
proof -
  define predicted where "predicted = \<lparr>shape = [b],
      elem = (\<lambda>idx. int (argmax_first (\<lambda>k. elem outputs (take 1 idx @ [k] @ drop 1 idx)) n))\<rparr>"
  have p: "torch_max_indices outputs 1 = Inr predicted"
    using n by (simp add: torch_max_indices_def out predicted_def)
  have bp: "bproj [b] [i] = [i]" if "i < b" for i
    using that by (auto simp: bproj_def)
  have "filter (\<lambda>i. elem predicted (bproj [b] [i]) = elem Y (bproj [b] [i])) [0..<b]
          = filter (\<lambda>i. int (argmax_first (\<lambda>k. elem outputs [i, k]) n) = elem Y [i]) [0..<b]"
    by (rule filter_cong) (simp_all add: bp predicted_def)
  then have "count_equal predicted Y = Inr (batch_correct outputs Y)"
    by (simp add: count_equal_def broadcast2_def broadcast_batch predicted_def Y out
        indices_1d filter_map comp_def batch_correct_def)
  moreover have "size0 Y = Inr b" by (simp add: size0_def Y)
  ultimately show ?thesis using p by blast
qed

lemma classifies_shapes:
  assumes "classifies clf (X, Y)"
  shows "\<exists>outputs n. clf X = Inr outputs \<and> shape outputs = [batch_samples Y, n] \<and> 0 < n
           \<and> shape Y = [batch_samples Y]"
proof -
  from assms obtain outputs where o: "clf X = Inr outputs"
    and Y: "length (shape Y) = 1" and l: "length (shape outputs) = 2"
    and b: "shape outputs ! 0 = shape Y ! 0" and n: "0 < shape outputs ! 1"
    by (auto simp: classifies_def split: sum.splits)
  from Y obtain b' where Y': "shape Y = [b']" by (cases "shape Y") auto
  from l obtain a m where o': "shape outputs = [a, m]"
    by (cases "shape outputs"; cases "tl (shape outputs)") auto
  from o o' Y' b n show ?thesis by (simp add: batch_samples_def)
qed

lemma accuracy_totals_closed:
  assumes "\<forall>batch \<in> set data_loader. classifies clf batch"
  shows "accuracy_totals clf data_loader tc ts =
           Inr (tc + total_correct_of clf data_loader, ts + total_samples_of data_loader)"
  using assms
proof (induction data_loader arbitrary: tc ts)
  case Nil
  then show ?case by (simp add: total_correct_of_def total_samples_of_def)
next
  case (Cons batch rest)
  obtain X Y where batch: "batch = (X, Y)" by (cases batch)
  from Cons.prems have "classifies clf (X, Y)" by (simp add: batch)
  from classifies_shapes [OF this] obtain outputs n where
    o: "clf X = Inr outputs" "shape outputs = [batch_samples Y, n]" "0 < n"
      "shape Y = [batch_samples Y]"
    by blast
  from accuracy_batch [OF o(2) o(3) o(4)] obtain predicted where
    p: "torch_max_indices outputs 1 = Inr predicted"
      "count_equal predicted Y = Inr (batch_correct outputs Y)"
      "size0 Y = Inr (batch_samples Y)"
    by blast
  from Cons.prems have rest: "\<forall>batch \<in> set rest. classifies clf batch" by simp
  show ?case
    using p
    by (simp add: batch o(1) Cons.IH [OF rest] total_correct_of_def total_samples_of_def)
qed

lemma compute_classifier_accuracy_closed:
  assumes "\<forall>batch \<in> set data_loader. classifies clf batch"
  shows "compute_classifier_accuracy clf data_loader =
           (if total_samples_of data_loader = 0 then Inl ZeroDivisionError
            else Inr (real (100 * total_correct_of clf data_loader)
                        / real (total_samples_of data_loader)))"
  by (simp add: compute_classifier_accuracy_def accuracy_totals_closed [OF assms])

lemma example_loader_classifies: "\<forall>batch \<in> set example_loader. classifies example_classifier batch"
  by (simp add: example_loader_def classifies_def example_classifier_def example_labels_def)

lemma example_loader_samples: "total_samples_of example_loader = 2"
  by (simp add: total_samples_of_def example_loader_def batch_samples_def example_labels_def)

text \<open>
  Claim C7.  On the classifier of \<^verbatim>\<open>transformer.py\<close> no accuracy is returned: for
  every encoder and every data loader that yields at least one batch,
  \<^verbatim>\<open>compute_classifier_accuracy\<close> raises \<^verbatim>\<open>TypeError\<close> on the first batch, since the
  call \<^verbatim>\<open>classifier(X)\<close> does not supply the device argument that \<^verbatim>\<open>Encoder.forward\<close>
  requires; on a data loader that yields no batch it raises \<^verbatim>\<open>ZeroDivisionError\<close>.
\<close>

theorem compute_classifier_accuracy_missing_device:
  "compute_classifier_accuracy (Encoder_call e) ((X, Y) # rest) = Inl TypeError
   \<and> compute_classifier_accuracy (Encoder_call e) [] = Inl ZeroDivisionError
   \<and> compute_classifier_accuracy (Encoder_call example_encoder) [(example_idx, example_label)]
       = Inl TypeError"
  by (simp add: compute_classifier_accuracy_def Encoder_call_def Encoder_forward_def)

text \<open>
  Claim C10.  \<^verbatim>\<open>compute_classifier_accuracy\<close> divides by the number of samples seen.  On
  an empty data loader that number is zero and the division raises
  \<^verbatim>\<open>ZeroDivisionError\<close>; whenever a value is returned, the loop has counted at least one
  sample; and for a model that returns one row per label, a value is returned exactly when
  the data loader yields at least one sample.
\<close>

theorem compute_classifier_accuracy_needs_samples:
  "compute_classifier_accuracy clf [] = Inl ZeroDivisionError
   \<and> (\<forall>accuracy. compute_classifier_accuracy clf data_loader = Inr accuracy \<longrightarrow>
         (\<exists>total_correct total_samples.
            accuracy_totals clf data_loader 0 0 = Inr (total_correct, total_samples)
            \<and> 0 < total_samples))
   \<and> ((\<forall>batch \<in> set data_loader. classifies clf batch) \<longrightarrow>
         (total_samples_of data_loader = 0 \<longrightarrow>
            compute_classifier_accuracy clf data_loader = Inl ZeroDivisionError)
         \<and> (0 < total_samples_of data_loader \<longrightarrow>
            (\<exists>accuracy. compute_classifier_accuracy clf data_loader = Inr accuracy)))"
proof -
  have a: "compute_classifier_accuracy clf [] = Inl ZeroDivisionError"
    by (simp add: compute_classifier_accuracy_def)
  have b: "\<exists>total_correct total_samples.
            accuracy_totals clf data_loader 0 0 = Inr (total_correct, total_samples)
            \<and> 0 < total_samples"
    if "compute_classifier_accuracy clf data_loader = Inr accuracy" for accuracy
    using that
    by (cases "accuracy_totals clf data_loader 0 0")
      (auto simp: compute_classifier_accuracy_def split: if_splits)
  have c: "(total_samples_of data_loader = 0 \<longrightarrow>
            compute_classifier_accuracy clf data_loader = Inl ZeroDivisionError)
         \<and> (0 < total_samples_of data_loader \<longrightarrow>
            (\<exists>accuracy. compute_classifier_accuracy clf data_loader = Inr accuracy))"
    if "\<forall>batch \<in> set data_loader. classifies clf batch"
    by (simp add: compute_classifier_accuracy_closed [OF that])
  from a b c show ?thesis by blast
qed

theorem compute_classifier_accuracy_needs_samples_witness:
  "compute_classifier_accuracy example_classifier [] = Inl ZeroDivisionError
   \<and> (\<exists>accuracy. compute_classifier_accuracy example_classifier example_loader = Inr accuracy)"
proof -
  have pos: "0 < total_samples_of example_loader" by (simp add: example_loader_samples)
  from compute_classifier_accuracy_needs_samples [of example_classifier example_loader]
    example_loader_classifies pos
  show ?thesis by blast
qed

section \<open>Properties of the perplexity evaluation\<close>

lemma perplexity_losses_closed:
  assumes "\<forall>batch \<in> set data_loader. \<exists>l. batch_loss model batch = Inr l"
  shows "perplexity_losses model data_loader eval_iters losses =
           Inr (losses @ take (max 1 (nat (eval_iters - int (length losses))))
                           (map (\<lambda>batch. projr (batch_loss model batch)) data_loader))"
  using assms
proof (induction data_loader arbitrary: losses)
  case Nil
  then show ?case by simp
next
  case (Cons batch rest)
  from Cons.prems obtain l where l: "batch_loss model batch = Inr l" by auto
  from Cons.prems have rest: "\<forall>batch \<in> set rest. \<exists>l. batch_loss model batch = Inr l" by simp
  show ?case
  proof (cases "eval_iters \<le> int (length losses) + 1")
    case True
    then have "max 1 (nat (eval_iters - int (length losses))) = 1" by simp
    then show ?thesis using True by (simp add: l)
  next
    case False
    then have "2 \<le> nat (eval_iters - int (length losses))" by simp
    then obtain k where "nat (eval_iters - int (length losses)) = 2 + k"
      using le_iff_add by blast
    then have k: "nat (eval_iters - int (length losses)) = Suc (Suc k)" by simp
    then have k': "nat (eval_iters - (1 + int (length losses))) = Suc k" by simp
    show ?thesis using False by (simp add: l Cons.IH [OF rest] k k')
  qed
qed

lemma compute_perplexity_default:
  "compute_perplexity model data_loader None = compute_perplexity model data_loader (Some 100)"
  by (simp add: compute_perplexity_def)

lemma Decoder_call_raises: "Decoder_call d X = Inl TypeError"
  by (simp add: Decoder_call_def Decoder_forward_def)

lemma compute_perplexity_Decoder:
  "compute_perplexity (Decoder_call d) (batch # rest) eval_iters_arg = Inl TypeError"
  by (simp add: compute_perplexity_def batch_loss_def Decoder_call_raises)

lemma fl_maximum_zero: "fl_maximum (\<lambda>k. Fin 0) (Suc n) = Fin 0"
  by (induction n) (simp_all add: fl_max_def)

lemma fl_sum_const: "fl_sum (\<lambda>k. Fin c) n = Fin (real n * c)"
  by (induction n) (simp_all add: algebra_simps)

lemma fl_sum_nth_Fin: "fl_sum (\<lambda>k. map Fin rs ! k) (length rs) = Fin (sum_list rs)"
proof (induction rs rule: rev_induct)
  case Nil
  then show ?case by simp
next
  case (snoc r rs)
  have "fl_sum (\<lambda>k. map Fin (rs @ [r]) ! k) (length rs) = fl_sum (\<lambda>k. map Fin rs ! k) (length rs)"
    by (rule fl_sum_cong) (simp add: nth_append)
  with snoc show ?case by (simp add: nth_append)
qed

lemma example_lm_loss:
  "batch_loss example_lm (X, example_targets) = Inr (Fin (ln (real (Suc X))))"
proof -
  have "nll \<lparr>shape = [Suc 0, Suc X], elem = (\<lambda>idx. Fin 0)\<rparr> 0 0 = Fin (ln (real (Suc X)))"
    by (simp add: nll_def fl_maximum_zero fl_sub_def fl_sum_const del: fl_maximum.simps fl_sum.simps)
  then show ?thesis
    by (simp add: batch_loss_def example_lm_def example_targets_def view_def cross_entropy_def)
qed

lemma example_lm_losses:
  "map (\<lambda>batch. projr (batch_loss example_lm batch)) example_lm_loader
     = map Fin (replicate 100 0 @ [ln 2])"
  by (simp add: example_lm_loader_def example_lm_loss)

lemma example_lm_loader_ok:
  "\<forall>batch \<in> set example_lm_loader. \<exists>l. batch_loss example_lm batch = Inr l"
  by (auto simp: example_lm_loader_def example_lm_loss)

lemma sum_list_replicate_zero: "sum_list (replicate n (0::real)) = 0"
  by (induction n) simp_all

lemma exp32_small: "exp32 (ln 2 / 101) = Fin (exp (ln 2 / 101))"
proof -
  have lo: "1 \<le> exp (ln 2 / 101 :: real)" by simp
  have "exp (ln 2 / 101 :: real) \<le> exp (ln 2)" by (subst exp_le_cancel_iff) simp
  then have hi: "exp (ln 2 / 101 :: real) \<le> 2" by simp
  have a: "\<not> exp (ln 2 / 101 :: real) \<le> 1 / 2 ^ 150"
  proof
    assume "exp (ln 2 / 101 :: real) \<le> 1 / 2 ^ 150"
    moreover have "(1 / 2 ^ 150 :: real) < 1" by simp
    ultimately show False using lo by linarith
  qed
  have b: "\<not> 2 ^ 128 - 2 ^ 103 \<le> exp (ln 2 / 101 :: real)"
  proof
    assume "2 ^ 128 - 2 ^ 103 \<le> exp (ln 2 / 101 :: real)"
    moreover have "(2 :: real) < 2 ^ 128 - 2 ^ 103" by simp
    ultimately show False using hi by linarith
  qed
  show ?thesis unfolding exp32_def using a b by (simp only: if_False)
qed

text \<open>
  Claim C3.  Called without an iteration bound, \<^verbatim>\<open>compute_perplexity\<close> stops after 100
  batches, not 200: on a data loader of 101 batches whose first 100 losses are 0 and whose
  last loss is \<open>ln 2\<close> it returns \<open>exp 0 = 1\<close>, where the bound 200 gives
  \<open>exp (ln 2 / 101)\<close>.  On the decoder of \<^verbatim>\<open>transformer.py\<close> the first batch already
  raises \<^verbatim>\<open>TypeError\<close>, since the call \<^verbatim>\<open>decoderLMmodel(X)\<close> does not supply the device
  argument.
\<close>

theorem compute_perplexity_default_bound:
  "length example_lm_loader = 101
   \<and> compute_perplexity example_lm example_lm_loader None = Inr (Fin 1)
   \<and> compute_perplexity example_lm example_lm_loader (Some 200) = Inr (Fin (exp (ln 2 / 101)))
   \<and> compute_perplexity (Decoder_call example_decoder) [(example_idx, example_targets)] None
       = Inl TypeError"
proof -
  have a: "length example_lm_loader = 101" by (simp add: example_lm_loader_def)
  have l100: "length (replicate 100 (0::real)) = 100" by simp
  have s100: "fl_sum (\<lambda>k. map Fin (replicate 100 0) ! k) 100 = Fin 0"
    using fl_sum_nth_Fin [of "replicate 100 0"] by (simp add: sum_list_replicate_zero)
  have l101: "length (replicate 100 (0::real) @ [ln 2]) = 101" by simp
  have s101: "fl_sum (\<lambda>k. map Fin (replicate 100 0 @ [ln 2]) ! k) 101 = Fin (ln 2)"
    using fl_sum_nth_Fin [of "replicate 100 0 @ [ln 2]"]
    by (simp add: sum_list_replicate_zero del: fl_sum.simps map_append replicate.simps)
  have t100: "take 100 (map Fin (replicate 100 0 @ [ln 2])) = map Fin (replicate 100 (0::real))"
    by simp
  have b: "compute_perplexity example_lm example_lm_loader None = Inr (Fin 1)"
    using s100
    by (simp add: compute_perplexity_def perplexity_losses_closed [OF example_lm_loader_ok]
        example_lm_losses t100 del: fl_sum.simps map_append replicate.simps map_replicate)
  have c: "compute_perplexity example_lm example_lm_loader (Some 200)
             = Inr (Fin (exp (ln 2 / 101)))"
    using s101 exp32_small
    by (simp add: compute_perplexity_def perplexity_losses_closed [OF example_lm_loader_ok]
        example_lm_losses del: fl_sum.simps map_append replicate.simps map_replicate)
  from a b c compute_perplexity_Decoder show ?thesis by blast
qed

section \<open>Properties of the decoder\<close>

lemma Decoder_forward_logits:
  assumes d: "is_Decoder c vocab_size d"
    and dv: "n_head c dvd n_embd c" and ne: "0 < n_embd c"
    and idx: "shape idx = [B, T]" and T: "T \<le> block_size"
    and ids: "\<forall>b<B. \<forall>t<T. 0 \<le> elem idx [b, t] \<and> elem idx [b, t] < int vocab_size"
  shows "\<exists>logits. Decoder_forward d idx (Some dev) None = Inr (logits, None)
           \<and> shape logits = [B, T, vocab_size]"
proof -
  from d have tok: "shape (token_embedding_table d) = [vocab_size, n_embd c]"
    and pos: "shape (position_embedding_table d) = [block_size, n_embd c]"
    and bl: "\<forall>b \<in> set (blocks d). is_Block c True b"
    and ln: "is_LayerNorm (n_embd c) (ln_f d)"
    and lm: "is_Linear (n_embd c) vocab_size True (lm_head d)"
    by (simp_all add: is_Decoder_def)
  from hidden_states_shape [OF tok pos bl ln dv ne idx T ids] obtain x where
    x: "hidden_states d idx = Inr x" "shape x = [B, T, n_embd c]" by blast
  have "shape x = [B, T] @ [n_embd c]" using x(2) by simp
  from Linear_forward_shape [OF lm this] show ?thesis
    by (auto simp: Decoder_forward_def x(1))
qed

lemma example_decoder_is_Decoder: "is_Decoder example_constants 3 example_decoder"
proof -
  have c: "n_embd example_constants = 2" "n_layer example_constants = 1"
    by (simp_all add: example_constants_def)
  have "is_Linear 2 3 True (example_linear 2 3 True)"
    by (simp add: is_Linear_def example_linear_def)
  moreover have "is_LayerNorm 2 example_layer_norm"
    by (simp add: is_LayerNorm_def example_layer_norm_def)
  ultimately show ?thesis
    using example_block_is_Block [of True]
    by (simp add: is_Decoder_def c example_decoder_def)
qed

lemma example_decoder_forward:
  "\<exists>logits. Decoder_forward example_decoder example_idx (Some Cpu) None = Inr (logits, None)
     \<and> shape logits = [1, 2, 3]"
proof -
  have dv: "n_head example_constants dvd n_embd example_constants"
    and ne: "0 < n_embd example_constants"
    by (simp_all add: example_constants_def)
  have idx: "shape example_idx = [1, 2]" by (simp add: example_idx_def)
  have T: "(2::nat) \<le> block_size" by (simp add: block_size_def)
  have ids: "\<forall>b<1. \<forall>t<2. 0 \<le> elem example_idx [b, t] \<and> elem example_idx [b, t] < int 3"
    by (simp add: example_idx_def)
  from Decoder_forward_logits [OF example_decoder_is_Decoder dv ne idx T ids]
  show ?thesis .
qed

lemma generate_Suc:
  "generate sample d idx (Suc n) = Inl (if length (shape idx) < 2 then IndexError else TypeError)"
  by (simp add: crop_last_def Decoder_forward_def Let_def)

text \<open>
  Claim C2.  \<^verbatim>\<open>Decoder.generate\<close> on a seed of shape \<open>(1, 2)\<close> with one requested token
  raises \<^verbatim>\<open>TypeError\<close> in its first iteration: the call \<^verbatim>\<open>self(idx_cond)\<close> does not
  supply the device argument that \<^verbatim>\<open>Decoder.forward\<close> requires.  No sequence of length
  \<open>S + N\<close> is returned for any \<open>N > 0\<close>.
\<close>

theorem generate_missing_device:
  "generate example_sample example_decoder example_idx 1 = Inl TypeError"
  by (simp add: generate_Suc [of _ _ _ 0, simplified] example_idx_def)

section \<open>Properties of the entry point\<close>

text \<open>
  Claim C8, amended.  The entry point accepts the mode values \<open>e\<close>, \<open>d\<close>, \<open>se\<close> and \<open>sd\<close>
  and starts the corresponding pipeline; when the flag is absent it prints the
  invalid-mode message, starts no pipeline and exits normally; for any other supplied
  value the argument parser rejects the command line: no pipeline is started, the
  invalid-mode message is not printed, and the exit status is 2.
\<close>

theorem main_dispatch:
  "main (Some ''e'') = \<lparr>started = Some run_classifier, printed = [], exit_status = 0\<rparr>
   \<and> main (Some ''d'') = \<lparr>started = Some run_decoder, printed = [], exit_status = 0\<rparr>
   \<and> main (Some ''se'') = \<lparr>started = Some run_sanity_check_encoder, printed = [], exit_status = 0\<rparr>
   \<and> main (Some ''sd'') = \<lparr>started = Some run_sanity_check_decoder, printed = [], exit_status = 0\<rparr>
   \<and> main None = \<lparr>started = None, printed = [invalid_mode_message], exit_status = 0\<rparr>
   \<and> (v \<notin> {''e'', ''d'', ''se'', ''sd''} \<longrightarrow>
         main (Some v) = \<lparr>started = None, printed = [], exit_status = 2\<rparr>)"
  by (simp add: main_def parse_args_def mode_choices_def)

theorem main_dispatch_witness:
  "main (Some ''x'') = \<lparr>started = None, printed = [], exit_status = 2\<rparr>"
  using main_dispatch [of "''x''"] by simp

text \<open>
  A supplied value outside the choices does not reach the branch that prints the
  invalid-mode message.
\<close>

theorem main_invalid_value_rejected:
  "printed (main (Some ''x'')) \<noteq> [invalid_mode_message] \<and> exit_status (main (Some ''x'')) \<noteq> 0"
  by (simp add: main_def parse_args_def mode_choices_def)

end
